theory Spec2Isabelle
  imports Complex_Main "HOL-Library.AList"
begin

section \<open>The document store behind the routers\<close>

text \<open>
  The routers (\<^verbatim>\<open>routes/courses.js\<close>, \<^verbatim>\<open>routes/students.js\<close>, \<^verbatim>\<open>routes/admin.js\<close>) work on two
  Mongoose collections. A collection is an association list from the document's \<^verbatim>\<open>_id\<close> to
  the document, in insertion order; \<^verbatim>\<open>findById\<close> is \<open>map_of\<close>, so the \<^verbatim>\<open>_id\<close> of a document is
  its key and not a field of the record. Identifiers are the strings \<^verbatim>\<open>req.user.id\<close> and
  \<^verbatim>\<open>req.params.id\<close> carry; Mongoose's array \<^verbatim>\<open>includes\<close> and the handlers' \<^verbatim>\<open>toString()\<close>
  comparisons compare ObjectIds by that string.
\<close>

type_synonym ident = string

text \<open>
  The \<^verbatim>\<open>_id\<close> of a stored document is an ObjectId. A string casts to an ObjectId when it
  consists of 24 hexadecimal digits.
\<close>

definition isObjectId :: "ident \<Rightarrow> bool" where
  "isObjectId i = (length i = 24 \<and> list_all (\<lambda>c. c \<in> set ''0123456789abcdefABCDEF'') i)"

text \<open>
  \<^verbatim>\<open>CourseSchema\<close> of \<^verbatim>\<open>models/Course.js\<close>: the fields a handler reads or writes. The
  remaining schema fields (department, semester, credits, schedule, description, syllabus,
  prerequisites, assignments, createdAt) are payload that no handler modelled here looks at.
  \<^verbatim>\<open>capacity\<close> is a Number with \<^verbatim>\<open>default: 30, min: 1\<close> and no validator that asks for an
  integer: it is a rational number here.
\<close>

record course =
  courseCode :: string
  courseName :: string
  instructor :: string
  instructorId :: "ident option"
  capacity :: rat
  enrolledStudents :: "ident list"
  isActive :: bool
  updatedAt :: int

text \<open>The virtuals \<^verbatim>\<open>enrolledCount\<close> and \<^verbatim>\<open>availableSeats\<close> of \<^verbatim>\<open>CourseSchema\<close>.\<close>

definition enrolledCount :: "course \<Rightarrow> rat" where
  "enrolledCount c = of_nat (length (enrolledStudents c))"

definition availableSeats :: "course \<Rightarrow> rat" where
  "availableSeats c = capacity c - of_nat (length (enrolledStudents c))"

text \<open>
  Modelled from the spec: the User document. \<^verbatim>\<open>models/User.js\<close> is not among the sources;
  the fields are those the routers read or write and the spec's data model names. A field
  of type \<open>option\<close> may be absent from a document (\<^verbatim>\<open>undefined\<close>).
\<close>

record user =
  name :: string
  email :: string
  password :: "string option"
  role :: string
  studentId :: "string option"
  department :: "string option"
  semester :: "int option"
  enrolledCourses :: "ident list"
  isActive :: bool
  createdAt :: int

record db =
  courses :: "(ident \<times> course) list"
  users :: "(ident \<times> user) list"

text \<open>
  The outcomes of a request, by the names of the spec's taxonomy. The source sends
  \<^item> \<open>NotFound\<close>: status 404 (\<^verbatim>\<open>'Course not found'\<close>, \<^verbatim>\<open>'User not found'\<close>);
  \<^item> \<open>Inactive\<close>: status 400, \<^verbatim>\<open>'Course is not active'\<close>;
  \<^item> \<open>Conflict\<close>: status 400, \<^verbatim>\<open>'Already enrolled in this course'\<close>,
    \<^verbatim>\<open>'Not enrolled in this course'\<close>, \<^verbatim>\<open>'User already exists with this email'\<close>;
  \<^item> \<open>CapacityExceeded\<close>: status 400, \<^verbatim>\<open>'Course is full'\<close>;
  \<^item> \<open>Forbidden\<close>: status 403, and status 400 with \<^verbatim>\<open>'Cannot deactivate your own account'\<close>,
    \<^verbatim>\<open>'Cannot change your own role'\<close>, \<^verbatim>\<open>'Cannot delete your own account'\<close>;
  \<^item> \<open>ValidationFailed\<close>: status 400 with the validator's errors, \<^verbatim>\<open>'Valid role is required'\<close>,
    \<^verbatim>\<open>'Please provide ...'\<close>;
  \<^item> \<open>Unauthorized\<close>: status 401 (\<^verbatim>\<open>'No token provided'\<close>, \<^verbatim>\<open>'Invalid token'\<close>,
    \<^verbatim>\<open>'Invalid credentials'\<close>);
  \<^item> \<open>ServerFault\<close>: status 500, sent by a handler's \<^verbatim>\<open>catch\<close> block.
\<close>

datatype failure =
  NotFound | Inactive | Conflict | CapacityExceeded | Forbidden
  | ValidationFailed | Unauthorized | ServerFault

text \<open>
  Every call of the store is awaited inside \<^verbatim>\<open>try\<close>, and may throw. Which calls throw
  during one request is a parameter of the handler: the set of the calls that fail.
\<close>

datatype store_call =
  Course_findById | Course_save | Course_findByIdAndUpdate | Course_updateMany
  | User_find | User_findById | User_save | User_findByIdAndUpdate | User_deleteOne

type_synonym faults = "store_call \<Rightarrow> bool"

definition no_fault :: faults where
  "no_fault = (\<lambda>_. False)"

subsection \<open>The store's operations\<close>

text \<open>\<^verbatim>\<open>course.save()\<close>: the \<^verbatim>\<open>pre('save')\<close> hook of \<^verbatim>\<open>CourseSchema\<close> stamps \<^verbatim>\<open>updatedAt\<close>.\<close>

definition pre_save :: "int \<Rightarrow> course \<Rightarrow> course" where
  "pre_save now c = c\<lparr>updatedAt := now\<rparr>"

definition save_course :: "ident \<Rightarrow> course \<Rightarrow> db \<Rightarrow> db" where
  "save_course cid c s = s\<lparr>courses := AList.update cid c (courses s)\<rparr>"

definition save_user :: "ident \<Rightarrow> user \<Rightarrow> db \<Rightarrow> db" where
  "save_user uid u s = s\<lparr>users := AList.update uid u (users s)\<rparr>"

text \<open>
  An update document, as \<^verbatim>\<open>findByIdAndUpdate\<close> takes it. A top-level key that names a
  schema path is shorthand for \<^verbatim>\<open>$set\<close>; a key that starts with \<^verbatim>\<open>$\<close> is an operator. The
  routers use \<^verbatim>\<open>$addToSet\<close> and \<^verbatim>\<open>$pull\<close> on \<^verbatim>\<open>enrolledCourses\<close> and pass a request body as
  the update document; \<open>user_patch\<close> holds the paths of one such sub-document, absent ones
  as \<open>None\<close>.
\<close>

record user_patch =
  p_name :: "string option"
  p_email :: "string option"
  p_password :: "string option"
  p_role :: "string option"
  p_studentId :: "string option"
  p_department :: "string option"
  p_semester :: "int option"
  p_enrolledCourses :: "ident list option"
  p_isActive :: "bool option"

definition no_patch :: user_patch where
  "no_patch = \<lparr>p_name = None, p_email = None, p_password = None, p_role = None,
     p_studentId = None, p_department = None, p_semester = None,
     p_enrolledCourses = None, p_isActive = None\<rparr>"

record user_update =
  top_level :: user_patch
  set_op :: user_patch
  addToSet_enrolledCourses :: "ident option"
  pull_enrolledCourses :: "ident option"

definition no_update :: user_update where
  "no_update = \<lparr>top_level = no_patch, set_op = no_patch,
     addToSet_enrolledCourses = None, pull_enrolledCourses = None\<rparr>"

definition apply_patch :: "user_patch \<Rightarrow> user \<Rightarrow> user" where
  "apply_patch p u =
     u\<lparr>name := (case p_name p of None \<Rightarrow> name u | Some v \<Rightarrow> v),
       email := (case p_email p of None \<Rightarrow> email u | Some v \<Rightarrow> v),
       password := (case p_password p of None \<Rightarrow> password u | Some v \<Rightarrow> Some v),
       role := (case p_role p of None \<Rightarrow> role u | Some v \<Rightarrow> v),
       studentId := (case p_studentId p of None \<Rightarrow> studentId u | Some v \<Rightarrow> Some v),
       department := (case p_department p of None \<Rightarrow> department u | Some v \<Rightarrow> Some v),
       semester := (case p_semester p of None \<Rightarrow> semester u | Some v \<Rightarrow> Some v),
       enrolledCourses :=
         (case p_enrolledCourses p of None \<Rightarrow> enrolledCourses u | Some v \<Rightarrow> v),
       user.isActive := (case p_isActive p of None \<Rightarrow> user.isActive u | Some v \<Rightarrow> v)\<rparr>"

definition addToSet :: "'a \<Rightarrow> 'a list \<Rightarrow> 'a list" where
  "addToSet x xs = (if x \<in> set xs then xs else xs @ [x])"

definition pull :: "'a \<Rightarrow> 'a list \<Rightarrow> 'a list" where
  "pull x xs = filter (\<lambda>y. y \<noteq> x) xs"

text \<open>
  The operators in the order \<^verbatim>\<open>$set\<close>, top-level shorthand (Mongoose folds the shorthand
  into \<^verbatim>\<open>$set\<close>, over an entry of the same name), \<^verbatim>\<open>$addToSet\<close>, \<^verbatim>\<open>$pull\<close>.
\<close>

definition apply_update :: "user_update \<Rightarrow> user \<Rightarrow> user" where
  "apply_update upd u =
     (let u1 = apply_patch (top_level upd) (apply_patch (set_op upd) u);
          u2 = (case addToSet_enrolledCourses upd of None \<Rightarrow> u1
                | Some c \<Rightarrow> u1\<lparr>enrolledCourses := addToSet c (enrolledCourses u1)\<rparr>)
      in (case pull_enrolledCourses upd of None \<Rightarrow> u2
          | Some c \<Rightarrow> u2\<lparr>enrolledCourses := pull c (enrolledCourses u2)\<rparr>))"

text \<open>
  \<^verbatim>\<open>User.findByIdAndUpdate(id, update)\<close>: the document with that \<^verbatim>\<open>_id\<close> is updated; when
  there is none the call resolves to \<^verbatim>\<open>null\<close> and the collection is as before.
\<close>

definition findByIdAndUpdate_user :: "ident \<Rightarrow> user_update \<Rightarrow> db \<Rightarrow> db" where
  "findByIdAndUpdate_user uid upd s =
     (case map_of (users s) uid of
        None \<Rightarrow> s
      | Some u \<Rightarrow> save_user uid (apply_update upd u) s)"

text \<open>
  \<^verbatim>\<open>findById(req.params.id)\<close> when no document is stored under the id: for an id that casts
  to an ObjectId the call resolves to \<^verbatim>\<open>null\<close> and the handler answers 404; for any other
  id the cast throws inside \<^verbatim>\<open>try\<close> and the handler answers 500. The ids of stored
  documents are ObjectIds, so the cast throws only for an id under which nothing is
  stored. (\<^verbatim>\<open>req.user.id\<close> is the id of the authenticated user's document, an ObjectId.)
\<close>

definition missing :: "ident \<Rightarrow> failure" where
  "missing i = (if isObjectId i then NotFound else ServerFault)"

section \<open>Enrollment: \<^verbatim>\<open>routes/courses.js\<close>\<close>

text \<open>
  \<^verbatim>\<open>router.post('/:id/enroll', protect, authorize('student'), ...)\<close>. The middleware is not
  among the sources: the handler is modelled from the point where \<^verbatim>\<open>req.user.id\<close> (\<open>uid\<close>) is
  the authenticated student; \<open>cid\<close> is \<^verbatim>\<open>req.params.id\<close> and \<open>now\<close> the clock read by the save
  hook. The response carries the saved course.
\<close>

definition enroll :: "faults \<Rightarrow> int \<Rightarrow> ident \<Rightarrow> ident \<Rightarrow> db \<Rightarrow> (failure + course) \<times> db" where
  "enroll flt now uid cid s =
     (if flt Course_findById then (Inl ServerFault, s)
      else case map_of (courses s) cid of
        None \<Rightarrow> (Inl (missing cid), s)
      | Some c \<Rightarrow>
          if \<not> course.isActive c then (Inl Inactive, s)
          else if uid \<in> set (enrolledStudents c) then (Inl Conflict, s)
          else if of_nat (length (enrolledStudents c)) \<ge> capacity c
            then (Inl CapacityExceeded, s)
          else if flt Course_save then (Inl ServerFault, s)
          else
            let c' = pre_save now (c\<lparr>enrolledStudents := enrolledStudents c @ [uid]\<rparr>);
                s1 = save_course cid c' s
            in if flt User_findByIdAndUpdate then (Inl ServerFault, s1)
               else (Inr c',
                     findByIdAndUpdate_user uid
                       (no_update\<lparr>addToSet_enrolledCourses := Some cid\<rparr>) s1))"

text \<open>
  \<^verbatim>\<open>router.post('/:id/unenroll', protect, authorize('student'), ...)\<close>. There is no check
  of \<^verbatim>\<open>isActive\<close> on this path.
\<close>

definition unenroll :: "faults \<Rightarrow> int \<Rightarrow> ident \<Rightarrow> ident \<Rightarrow> db \<Rightarrow> (failure + unit) \<times> db" where
  "unenroll flt now uid cid s =
     (if flt Course_findById then (Inl ServerFault, s)
      else case map_of (courses s) cid of
        None \<Rightarrow> (Inl (missing cid), s)
      | Some c \<Rightarrow>
          if uid \<notin> set (enrolledStudents c) then (Inl Conflict, s)
          else if flt Course_save then (Inl ServerFault, s)
          else
            let c' = pre_save now
                       (c\<lparr>enrolledStudents := filter (\<lambda>studentId. studentId \<noteq> uid)
                                                  (enrolledStudents c)\<rparr>);
                s1 = save_course cid c' s
            in if flt User_findByIdAndUpdate then (Inl ServerFault, s1)
               else (Inr (),
                     findByIdAndUpdate_user uid
                       (no_update\<lparr>pull_enrolledCourses := Some cid\<rparr>) s1))"

section \<open>Course maintenance: \<^verbatim>\<open>routes/courses.js\<close>\<close>

text \<open>
  \<^verbatim>\<open>router.put('/:id', protect, authorize('admin', 'instructor'), ...)\<close> hands the request
  body to \<^verbatim>\<open>Course.findByIdAndUpdate\<close> with \<^verbatim>\<open>runValidators\<close>. \<open>course_patch\<close> holds the body's
  keys for the fields the enrollment logic depends on; its other keys address payload.
  The validator that applies to these keys is \<^verbatim>\<open>min: 1\<close> on capacity; a validation error is
  thrown and caught as a server error, and so is \<^verbatim>\<open>course.instructorId.toString()\<close> on a
  course without \<^verbatim>\<open>instructorId\<close>.
\<close>

record course_patch =
  p_capacity :: "rat option"
  p_enrolledStudents :: "ident list option"
  p_courseActive :: "bool option"

definition apply_course_patch :: "course_patch \<Rightarrow> course \<Rightarrow> course" where
  "apply_course_patch p c =
     c\<lparr>capacity := (case p_capacity p of None \<Rightarrow> capacity c | Some v \<Rightarrow> v),
       enrolledStudents :=
         (case p_enrolledStudents p of None \<Rightarrow> enrolledStudents c | Some v \<Rightarrow> v),
       course.isActive := (case p_courseActive p of None \<Rightarrow> course.isActive c | Some v \<Rightarrow> v)\<rparr>"

definition course_validators :: "course_patch \<Rightarrow> bool" where
  "course_validators p = (case p_capacity p of None \<Rightarrow> True | Some v \<Rightarrow> 1 \<le> v)"

definition update_course ::
  "faults \<Rightarrow> string \<Rightarrow> ident \<Rightarrow> ident \<Rightarrow> course_patch \<Rightarrow> db \<Rightarrow> (failure + course) \<times> db" where
  "update_course flt caller_role caller cid body s =
     (if flt Course_findById then (Inl ServerFault, s)
      else case map_of (courses s) cid of
        None \<Rightarrow> (Inl (missing cid), s)
      | Some c \<Rightarrow>
          if caller_role = ''instructor'' \<and> instructorId c = None then (Inl ServerFault, s)
          else if caller_role = ''instructor'' \<and> instructorId c \<noteq> Some caller
            then (Inl Forbidden, s)
          else if flt Course_findByIdAndUpdate \<or> \<not> course_validators body
            then (Inl ServerFault, s)
          else let c' = apply_course_patch body c in (Inr c', save_course cid c' s))"

text \<open>\<^verbatim>\<open>router.delete('/:id', protect, authorize('admin'), ...)\<close>: the soft delete.\<close>

definition delete_course :: "faults \<Rightarrow> int \<Rightarrow> ident \<Rightarrow> db \<Rightarrow> (failure + unit) \<times> db" where
  "delete_course flt now cid s =
     (if flt Course_findById then (Inl ServerFault, s)
      else case map_of (courses s) cid of
        None \<Rightarrow> (Inl (missing cid), s)
      | Some c \<Rightarrow>
          if flt Course_save then (Inl ServerFault, s)
          else (Inr (), save_course cid (pre_save now (c\<lparr>course.isActive := False\<rparr>)) s))"

section \<open>Administration: \<^verbatim>\<open>routes/admin.js\<close>\<close>

text \<open>
  The handlers run behind \<^verbatim>\<open>protect, authorize('admin')\<close>; \<open>caller\<close> is \<^verbatim>\<open>req.user.id\<close> and
  \<open>target\<close> is \<^verbatim>\<open>req.params.id\<close>. The own-account guards answer with status 400.
\<close>

definition toggle_status :: "faults \<Rightarrow> ident \<Rightarrow> ident \<Rightarrow> db \<Rightarrow> (failure + user) \<times> db" where
  "toggle_status flt caller target s =
     (if flt User_findById then (Inl ServerFault, s)
      else case map_of (users s) target of
        None \<Rightarrow> (Inl (missing target), s)
      | Some u \<Rightarrow>
          if target = caller then (Inl Forbidden, s)
          else if flt User_save then (Inl ServerFault, s)
          else let u' = u\<lparr>user.isActive := \<not> user.isActive u\<rparr>
               in (Inr u', save_user target u' s))"

definition valid_roles :: "string list" where
  "valid_roles = [''student'', ''admin'', ''instructor'']"

text \<open>
  \<^verbatim>\<open>router.put('/users/:id/role', ...)\<close>; \<open>body_role\<close> is \<^verbatim>\<open>req.body.role\<close>, \<open>None\<close> when the
  key is absent. The role is assigned before the test that was to clear the student-only
  fields, as in the source.
\<close>

definition update_role ::
  "faults \<Rightarrow> ident \<Rightarrow> ident \<Rightarrow> string option \<Rightarrow> db \<Rightarrow> (failure + user) \<times> db" where
  "update_role flt caller target body_role s =
     (case body_role of
        None \<Rightarrow> (Inl ValidationFailed, s)
      | Some r \<Rightarrow>
          if r = '''' \<or> r \<notin> set valid_roles then (Inl ValidationFailed, s)
          else if flt User_findById then (Inl ServerFault, s)
          else (case map_of (users s) target of
            None \<Rightarrow> (Inl (missing target), s)
          | Some u \<Rightarrow>
              if target = caller then (Inl Forbidden, s)
              else
                let u1 = u\<lparr>role := r\<rparr>;
                    u2 = (if role u1 = ''student'' \<and> r \<noteq> ''student''
                          then u1\<lparr>studentId := None, department := Some ''General'',
                                  semester := Some 1\<rparr>
                          else u1)
                in if flt User_save then (Inl ServerFault, s)
                   else (Inr u2, save_user target u2 s)))"

text \<open>
  \<^verbatim>\<open>router.delete('/users/:id', ...)\<close>: \<^verbatim>\<open>Course.updateMany\<close> pulls the id from every course
  whose roster holds it, then the user document is deleted.
\<close>

definition pull_from_rosters :: "ident \<Rightarrow> (ident \<times> course) list \<Rightarrow> (ident \<times> course) list" where
  "pull_from_rosters uid cs =
     map (\<lambda>(k, c). (k, if uid \<in> set (enrolledStudents c)
                        then c\<lparr>enrolledStudents := pull uid (enrolledStudents c)\<rparr>
                        else c)) cs"

definition delete_user :: "faults \<Rightarrow> ident \<Rightarrow> ident \<Rightarrow> db \<Rightarrow> (failure + unit) \<times> db" where
  "delete_user flt caller target s =
     (if flt User_findById then (Inl ServerFault, s)
      else case map_of (users s) target of
        None \<Rightarrow> (Inl (missing target), s)
      | Some u \<Rightarrow>
          if target = caller then (Inl Forbidden, s)
          else if flt Course_updateMany then (Inl ServerFault, s)
          else
            let s1 = s\<lparr>courses := pull_from_rosters target (courses s)\<rparr>
            in if flt User_deleteOne then (Inl ServerFault, s1)
               else (Inr (), s1\<lparr>users := AList.delete target (users s1)\<rparr>))"

text \<open>
  \<^verbatim>\<open>router.get('/users', ...)\<close>: all users without the password, newest first; when the
  query throws, the \<^verbatim>\<open>catch\<close> block answers with three fixed users, still as a success.
\<close>

definition select_minus_password :: "user \<Rightarrow> user" where
  "select_minus_password u = u\<lparr>password := None\<rparr>"

definition fallback_users :: "int \<Rightarrow> (ident \<times> user) list" where
  "fallback_users now =
     [(''1'', \<lparr>name = ''John Student'', email = ''student@test.com'', password = None,
              role = ''student'', studentId = Some ''S123456'',
              department = Some ''Computer Science'', semester = Some 2,
              enrolledCourses = [], isActive = True, createdAt = now\<rparr>),
      (''2'', \<lparr>name = ''Admin User'', email = ''admin@test.com'', password = None,
              role = ''admin'', studentId = None, department = None, semester = None,
              enrolledCourses = [], isActive = True, createdAt = now\<rparr>),
      (''3'', \<lparr>name = ''Jane Student'', email = ''jane@test.com'', password = None,
              role = ''student'', studentId = Some ''S123457'',
              department = Some ''Mathematics'', semester = Some 3,
              enrolledCourses = [], isActive = True, createdAt = now\<rparr>)]"

definition get_users :: "faults \<Rightarrow> int \<Rightarrow> db \<Rightarrow> (ident \<times> user) list" where
  "get_users flt now s =
     (if flt User_find then fallback_users now
      else sort_key (\<lambda>(k, u). - createdAt u)
             (map (\<lambda>(k, u). (k, select_minus_password u)) (users s)))"

section \<open>The student's profile: \<^verbatim>\<open>routes/students.js\<close>\<close>

text \<open>
  \<^verbatim>\<open>router.get('/profile', ...)\<close>: the user without the password, \<^verbatim>\<open>enrolledCourses\<close> populated
  with the selected fields of the courses that exist.
\<close>

record course_summary =
  summary_id :: ident
  summary_code :: string
  summary_name :: string
  summary_instructor :: string

definition populate :: "(ident \<times> course) list \<Rightarrow> ident list \<Rightarrow> course_summary list" where
  "populate cs ids =
     List.map_filter
       (\<lambda>k. map_option (\<lambda>c. \<lparr>summary_id = k, summary_code = courseCode c,
                               summary_name = courseName c,
                               summary_instructor = instructor c\<rparr>) (map_of cs k)) ids"

definition get_profile :: "faults \<Rightarrow> ident \<Rightarrow> db \<Rightarrow> failure + user \<times> course_summary list" where
  "get_profile flt caller s =
     (if flt User_findById then Inl ServerFault
      else case map_of (users s) caller of
        None \<Rightarrow> Inl NotFound
      | Some u \<Rightarrow> Inr (select_minus_password u, populate (courses s) (enrolledCourses u)))"

text \<open>
  \<^verbatim>\<open>router.put('/profile', ...)\<close>. The request body is an update document of which the
  top-level keys and \<^verbatim>\<open>$set\<close> are modelled. The validation chain trims \<^verbatim>\<open>name\<close> and
  \<^verbatim>\<open>department\<close>, rejects an empty name and a semester outside 1..8. The handler deletes
  the top-level keys \<^verbatim>\<open>email\<close>, \<^verbatim>\<open>role\<close>, \<^verbatim>\<open>password\<close>, \<^verbatim>\<open>studentId\<close> from a copy of the body
  and passes the copy to \<^verbatim>\<open>User.findByIdAndUpdate\<close> with \<^verbatim>\<open>runValidators\<close>.
\<close>

record profile_body =
  body_fields :: user_patch
  body_set :: user_patch

text \<open>
  The validator's \<^verbatim>\<open>trim()\<close> strips JavaScript's white space (\<^verbatim>\<open>\s\<close>) from both ends. A
  string is its UTF-8 bytes, so a white-space character is one of these byte sequences:
  tab to carriage return and space, then U+00A0, U+1680, U+2000 to U+200A, U+2028,
  U+2029, U+202F, U+205F, U+3000 and U+FEFF.
\<close>

definition white_space :: "string list" where
  "white_space =
     [[CHR 0x09], [CHR 0x0A], [CHR 0x0B], [CHR 0x0C], [CHR 0x0D], [CHR 0x20],
      [CHR 0xC2, CHR 0xA0], [CHR 0xE1, CHR 0x9A, CHR 0x80],
      [CHR 0xE2, CHR 0x80, CHR 0x80], [CHR 0xE2, CHR 0x80, CHR 0x81],
      [CHR 0xE2, CHR 0x80, CHR 0x82], [CHR 0xE2, CHR 0x80, CHR 0x83],
      [CHR 0xE2, CHR 0x80, CHR 0x84], [CHR 0xE2, CHR 0x80, CHR 0x85],
      [CHR 0xE2, CHR 0x80, CHR 0x86], [CHR 0xE2, CHR 0x80, CHR 0x87],
      [CHR 0xE2, CHR 0x80, CHR 0x88], [CHR 0xE2, CHR 0x80, CHR 0x89],
      [CHR 0xE2, CHR 0x80, CHR 0x8A], [CHR 0xE2, CHR 0x80, CHR 0xA8],
      [CHR 0xE2, CHR 0x80, CHR 0xA9], [CHR 0xE2, CHR 0x80, CHR 0xAF],
      [CHR 0xE2, CHR 0x81, CHR 0x9F], [CHR 0xE3, CHR 0x80, CHR 0x80],
      [CHR 0xEF, CHR 0xBB, CHR 0xBF]]"

text \<open>The rest of a string after one leading sequence of the list, if it starts with one.\<close>

fun strip_one :: "string list \<Rightarrow> string \<Rightarrow> string option" where
  "strip_one [] str = None"
| "strip_one (w # ws) str =
     (if w \<noteq> [] \<and> take (length w) str = w then Some (drop (length w) str)
      else strip_one ws str)"

fun ltrim :: "nat \<Rightarrow> string list \<Rightarrow> string \<Rightarrow> string" where
  "ltrim 0 ws str = str"
| "ltrim (Suc n) ws str =
     (case strip_one ws str of None \<Rightarrow> str | Some rest \<Rightarrow> ltrim n ws rest)"

text \<open>
  Each step removes at least one byte, so the length of the string bounds the number
  of steps. The right end is stripped on the reversed string with the reversed
  sequences.
\<close>

definition trim :: "string \<Rightarrow> string" where
  "trim str =
     (let l = ltrim (length str) white_space str
      in rev (ltrim (length l) (map rev white_space) (rev l)))"

definition sanitize :: "user_patch \<Rightarrow> user_patch" where
  "sanitize p = p\<lparr>p_name := map_option trim (p_name p),
                   p_department := map_option trim (p_department p)\<rparr>"

definition validation_ok :: "user_patch \<Rightarrow> bool" where
  "validation_ok p =
     ((case p_name p of None \<Rightarrow> True | Some n \<Rightarrow> n \<noteq> [])
      \<and> (case p_semester p of None \<Rightarrow> True | Some k \<Rightarrow> 1 \<le> k \<and> k \<le> 8))"

definition delete_identity_keys :: "user_patch \<Rightarrow> user_patch" where
  "delete_identity_keys p =
     p\<lparr>p_email := None, p_role := None, p_password := None, p_studentId := None\<rparr>"

text \<open>
  Modelled from the spec: the validator of the User schema that \<^verbatim>\<open>runValidators\<close> runs on
  the paths of the update, \<^verbatim>\<open>role\<close> being an enum of student, admin and instructor. A
  validation error is thrown and caught as a server error.
\<close>

definition user_validators :: "user_patch \<Rightarrow> bool" where
  "user_validators p = (case p_role p of None \<Rightarrow> True | Some r \<Rightarrow> r \<in> set valid_roles)"

definition update_profile ::
  "faults \<Rightarrow> ident \<Rightarrow> profile_body \<Rightarrow> db \<Rightarrow> (failure + user option) \<times> db" where
  "update_profile flt caller body s =
     (let fields = sanitize (body_fields body) in
      if \<not> validation_ok fields then (Inl ValidationFailed, s)
      else
        let updates = no_update\<lparr>top_level := delete_identity_keys fields,
                                 set_op := body_set body\<rparr>
        in if flt User_findByIdAndUpdate
              \<or> \<not> user_validators (top_level updates) \<or> \<not> user_validators (set_op updates)
           then (Inl ServerFault, s)
           else
             let s' = findByIdAndUpdate_user caller updates s
             in (Inr (map_option select_minus_password (map_of (users s') caller)), s'))"

section \<open>The in-memory demo server\<close>

text \<open>
  The second module of \<^verbatim>\<open>courses.js\<close> is a server of its own over two global variables,
  \<^verbatim>\<open>demoUsers\<close> (an object from email to user object) and \<^verbatim>\<open>demoCourses\<close> (an array). Its
  user objects are dynamic: the profile update assigns any key of the request body. A
  user object is therefore a function from keys to JavaScript values, an absent key
  reading as \<open>Undefined\<close> (which is also how a response serialises it: not at all). The
  course objects only ever change in \<^verbatim>\<open>enrolledStudents\<close>; they have neither a capacity nor
  an \<^verbatim>\<open>isActive\<close> field. Their other fields (department, semester, credits, schedule,
  description) are payload.
\<close>

datatype jsval =
  Undefined | Null | Bool bool | Num int | Str string
  | Arr "jsval list" | Obj "(string \<times> jsval) list"

type_synonym jsobject = "string \<Rightarrow> jsval"

fun truthy :: "jsval \<Rightarrow> bool" where
  "truthy Undefined = False"
| "truthy Null = False"
| "truthy (Bool b) = b"
| "truthy (Num n) = (n \<noteq> 0)"
| "truthy (Str str) = (str \<noteq> [])"
| "truthy (Arr xs) = True"
| "truthy (Obj kvs) = True"

record demo_course =
  dc_id :: string
  dc_courseCode :: string
  dc_courseName :: string
  dc_instructor :: string
  dc_enrolledStudents :: "jsval list"

record demo =
  demoUsers :: "(string \<times> jsobject) list"
  demoCourses :: "demo_course list"

definition object_of :: "(string \<times> jsval) list \<Rightarrow> jsobject" where
  "object_of kvs = (\<lambda>k. case map_of kvs k of None \<Rightarrow> Undefined | Some v \<Rightarrow> v)"

definition demo_student :: jsobject where
  "demo_student =
     object_of [(''id'', Str ''1''), (''name'', Str ''John Student''),
       (''email'', Str ''student@test.com''), (''password'', Str ''password123''),
       (''role'', Str ''student''), (''studentId'', Str ''S123456''),
       (''department'', Str ''Computer Science''), (''semester'', Num 2),
       (''profileImage'', Str ''https://via.placeholder.com/150''),
       (''enrolledCourses'', Arr [Str ''1'', Str ''2''])]"

definition demo_admin :: jsobject where
  "demo_admin =
     object_of [(''id'', Str ''2''), (''name'', Str ''Admin User''),
       (''email'', Str ''admin@test.com''), (''password'', Str ''password123''),
       (''role'', Str ''admin''),
       (''profileImage'', Str ''https://via.placeholder.com/150'')]"

definition initial_demo :: demo where
  "initial_demo =
     \<lparr>demoUsers = [(''student@test.com'', demo_student), (''admin@test.com'', demo_admin)],
      demoCourses =
        [\<lparr>dc_id = ''1'', dc_courseCode = ''CS101'',
          dc_courseName = ''Introduction to Computer Science'',
          dc_instructor = ''Dr. Smith'', dc_enrolledStudents = [Str ''1'']\<rparr>,
         \<lparr>dc_id = ''2'', dc_courseCode = ''MATH201'', dc_courseName = ''Calculus I'',
          dc_instructor = ''Dr. Johnson'', dc_enrolledStudents = [Str ''1'']\<rparr>,
         \<lparr>dc_id = ''3'', dc_courseCode = ''ENG102'', dc_courseName = ''English Composition'',
          dc_instructor = ''Prof. Davis'', dc_enrolledStudents = []\<rparr>,
         \<lparr>dc_id = ''4'', dc_courseCode = ''PHY101'', dc_courseName = ''Physics I'',
          dc_instructor = ''Dr. Wilson'', dc_enrolledStudents = []\<rparr>,
         \<lparr>dc_id = ''5'', dc_courseCode = ''CS201'', dc_courseName = ''Data Structures'',
          dc_instructor = ''Dr. Brown'', dc_enrolledStudents = []\<rparr>]\<rparr>"

subsection \<open>Tokens\<close>

text \<open>JavaScript's \<^verbatim>\<open>str.split(sep)\<close> for a separator of one character.\<close>

fun split_on :: "char \<Rightarrow> string \<Rightarrow> string list" where
  "split_on sep [] = [[]]"
| "split_on sep (c # cs) =
     (if c = sep then [] # split_on sep cs
      else (case split_on sep cs of
              [] \<Rightarrow> [[c]]
            | part # parts \<Rightarrow> (c # part) # parts))"

definition startsWith :: "string \<Rightarrow> string \<Rightarrow> bool" where
  "startsWith str pre = (take (length pre) str = pre)"

definition element :: "'a list \<Rightarrow> nat \<Rightarrow> 'a option" where
  "element xs i = (if i < length xs then Some (xs ! i) else None)"

text \<open>
  \<^verbatim>\<open>req.headers.authorization?.split(' ')[1]\<close>: the header may be absent, and so may the
  second word.
\<close>

definition bearer :: "string option \<Rightarrow> string option" where
  "bearer header = (case header of None \<Rightarrow> None | Some h \<Rightarrow> element (split_on CHR '' '' h) 1)"

text \<open>\<^verbatim>\<open>!token\<close> holds of \<^verbatim>\<open>undefined\<close> and of the empty string.\<close>

definition no_token :: "string option \<Rightarrow> bool" where
  "no_token token = (case token of None \<Rightarrow> True | Some t \<Rightarrow> t = [])"

text \<open>
  \<^verbatim>\<open>validateSimpleToken\<close> returns the user object itself, which the handlers then mutate:
  the model returns the key of \<^verbatim>\<open>demoUsers\<close> under which it is stored, with the object.
\<close>

definition validateSimpleToken :: "string \<Rightarrow> demo \<Rightarrow> (string \<times> jsobject) option" where
  "validateSimpleToken token s =
     (if token = [] \<or> \<not> startsWith token ''demo-token-'' then None
      else let parts = split_on CHR ''-'' token in
        if length parts < 3 then None
        else let userId = parts ! 2;
                 email = (if userId = ''1'' then ''student@test.com'' else ''admin@test.com'')
             in (case map_of (demoUsers s) email of
                   None \<Rightarrow> None
                 | Some u \<Rightarrow> Some (email, u)))"

text \<open>The two checks every protected handler of the demo server starts with.\<close>

definition authenticate :: "string option \<Rightarrow> demo \<Rightarrow> failure + string \<times> jsobject" where
  "authenticate header s =
     (let token = bearer header in
      if no_token token then Inl Unauthorized
      else (case validateSimpleToken (the token) s of
              None \<Rightarrow> Inl Unauthorized
            | Some ku \<Rightarrow> Inr ku))"

text \<open>\<^verbatim>\<open>{ ...user }\<close> followed by \<^verbatim>\<open>delete userResponse.password\<close>.\<close>

definition without_password :: "jsobject \<Rightarrow> jsobject" where
  "without_password u = u(''password'' := Undefined)"

definition set_user :: "string \<Rightarrow> jsobject \<Rightarrow> demo \<Rightarrow> demo" where
  "set_user key u s = s\<lparr>demoUsers := AList.update key u (demoUsers s)\<rparr>"

subsection \<open>Authentication endpoints\<close>

text \<open>
  \<^verbatim>\<open>app.post('/api/auth/login')\<close>. The body's \<^verbatim>\<open>email\<close> and \<^verbatim>\<open>password\<close> are strings when
  present. The response's token, a string made of the id and the clock, is not part of
  the modelled payload. For an email that is a key inherited from \<^verbatim>\<open>Object.prototype\<close> the
  value found has no \<^verbatim>\<open>password\<close>, and the answer is 401 as for an unknown email.
\<close>

definition login :: "string option \<Rightarrow> string option \<Rightarrow> demo \<Rightarrow> failure + jsobject" where
  "login body_email body_password s =
     (case (body_email, body_password) of
        (Some e, Some pw) \<Rightarrow>
          if e = [] \<or> pw = [] then Inl ValidationFailed
          else (case map_of (demoUsers s) e of
                  None \<Rightarrow> Inl Unauthorized
                | Some u \<Rightarrow>
                    if u ''password'' \<noteq> Str pw then Inl Unauthorized
                    else Inr (without_password u))
      | _ \<Rightarrow> Inl ValidationFailed)"

text \<open>Decimal notation of a natural number, for \<^verbatim>\<open>newUserId.toString()\<close>.\<close>

function toString :: "nat \<Rightarrow> string" where
  "toString n =
     (if n < 10 then [''0123456789'' ! n]
      else toString (n div 10) @ [''0123456789'' ! (n mod 10)])"
  by pat_completeness auto
termination
  by (relation "measure id") auto

declare toString.simps [simp del]

record register_body =
  reg_name :: "string option"
  reg_email :: "string option"
  reg_password :: "string option"
  reg_role :: "string option"
  reg_studentId :: "string option"

definition falsy_string :: "string option \<Rightarrow> bool" where
  "falsy_string x = (case x of None \<Rightarrow> True | Some str \<Rightarrow> str = [])"

definition str_or_undefined :: "string option \<Rightarrow> jsval" where
  "str_or_undefined x = (case x of None \<Rightarrow> Undefined | Some str \<Rightarrow> Str str)"

text \<open>
  \<^verbatim>\<open>demoUsers\<close> is a plain object: \<^verbatim>\<open>demoUsers[email]\<close> is truthy for its own keys and for
  the keys it inherits from \<^verbatim>\<open>Object.prototype\<close>.
\<close>

definition inherited_keys :: "string list" where
  "inherited_keys =
     [''constructor'', ''__defineGetter__'', ''__defineSetter__'', ''hasOwnProperty'',
      ''__lookupGetter__'', ''__lookupSetter__'', ''isPrototypeOf'',
      ''propertyIsEnumerable'', ''toString'', ''valueOf'', ''__proto__'',
      ''toLocaleString'']"

text \<open>\<^verbatim>\<open>app.post('/api/auth/register')\<close>; \<open>now\<close> stands for \<^verbatim>\<open>new Date()\<close>.\<close>

definition register :: "int \<Rightarrow> register_body \<Rightarrow> demo \<Rightarrow> (failure + jsobject) \<times> demo" where
  "register now body s =
     (if falsy_string (reg_name body) \<or> falsy_string (reg_email body)
         \<or> falsy_string (reg_password body)
      then (Inl ValidationFailed, s)
      else
        let e = the (reg_email body) in
        if map_of (demoUsers s) e \<noteq> None \<or> e \<in> set inherited_keys
        then (Inl Conflict, s)
        else
          let newUserId = length (demoUsers s) + 1;
              r = (case reg_role body of None \<Rightarrow> ''student'' | Some x \<Rightarrow> x);
              newUser = object_of
                [(''id'', Str (toString newUserId)),
                 (''name'', str_or_undefined (reg_name body)),
                 (''email'', Str e),
                 (''password'', str_or_undefined (reg_password body)),
                 (''role'', Str r),
                 (''studentId'',
                    if r = ''student'' then str_or_undefined (reg_studentId body) else Undefined),
                 (''department'', Str ''General''),
                 (''semester'', Num 1),
                 (''profileImage'', Str ''https://via.placeholder.com/150''),
                 (''enrolledCourses'', Arr []),
                 (''createdAt'', Num now)]
          in (Inr (without_password newUser), set_user e newUser s))"

text \<open>\<^verbatim>\<open>app.get('/api/auth/me')\<close>.\<close>

definition me :: "string option \<Rightarrow> demo \<Rightarrow> failure + jsobject" where
  "me header s =
     (case authenticate header s of
        Inl err \<Rightarrow> Inl err
      | Inr (key, u) \<Rightarrow> Inr (without_password u))"

subsection \<open>Enrollment endpoints\<close>

definition find_course :: "string \<Rightarrow> demo_course list \<Rightarrow> demo_course option" where
  "find_course cid cs = List.find (\<lambda>c. dc_id c = cid) cs"

text \<open>
  The course object found is mutated in place: the first element of the array with that
  id is replaced.
\<close>

fun set_course :: "string \<Rightarrow> demo_course \<Rightarrow> demo_course list \<Rightarrow> demo_course list" where
  "set_course cid c' [] = []"
| "set_course cid c' (c # cs) = (if dc_id c = cid then c' # cs else c # set_course cid c' cs)"

text \<open>
  \<^verbatim>\<open>app.post('/api/courses/:id/enroll')\<close>. The roster is written first. When
  \<^verbatim>\<open>user.enrolledCourses\<close> is truthy and not an array, \<^verbatim>\<open>push\<close> is not a function and the
  handler throws after that write; Express answers with status 500. Comparison of values
  (\<^verbatim>\<open>includes\<close>, \<^verbatim>\<open>!==\<close>) is equality of \<open>jsval\<close>, which is JavaScript's on the strings
  that ids are.
\<close>

definition demo_enroll :: "string option \<Rightarrow> string \<Rightarrow> demo \<Rightarrow> (failure + demo_course) \<times> demo" where
  "demo_enroll header cid s =
     (case authenticate header s of
        Inl err \<Rightarrow> (Inl err, s)
      | Inr (key, u) \<Rightarrow>
          if u ''role'' \<noteq> Str ''student'' then (Inl Forbidden, s)
          else (case find_course cid (demoCourses s) of
            None \<Rightarrow> (Inl NotFound, s)
          | Some c \<Rightarrow>
              if u ''id'' \<in> set (dc_enrolledStudents c) then (Inl Conflict, s)
              else
                let c' = c\<lparr>dc_enrolledStudents := dc_enrolledStudents c @ [u ''id'']\<rparr>;
                    s1 = s\<lparr>demoCourses := set_course cid c' (demoCourses s)\<rparr>
                in if \<not> truthy (u ''enrolledCourses'')
                   then (Inr c', set_user key (u(''enrolledCourses'' := Arr [Str (dc_id c)])) s1)
                   else (case u ''enrolledCourses'' of
                           Arr xs \<Rightarrow>
                             (Inr c',
                              set_user key (u(''enrolledCourses'' := Arr (xs @ [Str (dc_id c)]))) s1)
                         | _ \<Rightarrow> (Inl ServerFault, s1))))"

text \<open>
  \<^verbatim>\<open>app.post('/api/courses/:id/unenroll')\<close>: no check of the role. \<^verbatim>\<open>filter\<close> on a value
  of \<^verbatim>\<open>user.enrolledCourses\<close> that is not an array throws, after the roster was written.
\<close>

definition demo_unenroll :: "string option \<Rightarrow> string \<Rightarrow> demo \<Rightarrow> (failure + unit) \<times> demo" where
  "demo_unenroll header cid s =
     (case authenticate header s of
        Inl err \<Rightarrow> (Inl err, s)
      | Inr (key, u) \<Rightarrow>
          (case find_course cid (demoCourses s) of
            None \<Rightarrow> (Inl NotFound, s)
          | Some c \<Rightarrow>
              if u ''id'' \<notin> set (dc_enrolledStudents c) then (Inl Conflict, s)
              else
                let c' = c\<lparr>dc_enrolledStudents :=
                            filter (\<lambda>i. i \<noteq> u ''id'') (dc_enrolledStudents c)\<rparr>;
                    s1 = s\<lparr>demoCourses := set_course cid c' (demoCourses s)\<rparr>
                in (case u ''enrolledCourses'' of
                      Arr xs \<Rightarrow>
                        (Inr (),
                         set_user key
                           (u(''enrolledCourses'' := Arr (filter (\<lambda>i. i \<noteq> Str (dc_id c)) xs))) s1)
                    | _ \<Rightarrow> (Inl ServerFault, s1))))"

subsection \<open>Student and admin endpoints\<close>

text \<open>\<^verbatim>\<open>app.get('/api/students/profile')\<close>.\<close>

definition demo_get_profile :: "string option \<Rightarrow> demo \<Rightarrow> failure + jsobject" where
  "demo_get_profile header s =
     (case authenticate header s of
        Inl err \<Rightarrow> Inl err
      | Inr (key, u) \<Rightarrow>
          if u ''role'' \<noteq> Str ''student'' then Inl Forbidden
          else Inr (without_password u))"

text \<open>
  \<^verbatim>\<open>app.put('/api/students/profile')\<close>: no check of the role. The body is the parsed JSON
  object, its keys in order; every key but three is assigned to the user object.
\<close>

definition assign_key :: "jsobject \<Rightarrow> string \<times> jsval \<Rightarrow> jsobject" where
  "assign_key u kv =
     (if fst kv \<noteq> ''email'' \<and> fst kv \<noteq> ''password'' \<and> fst kv \<noteq> ''role''
      then u(fst kv := snd kv) else u)"

definition demo_update_profile ::
  "string option \<Rightarrow> (string \<times> jsval) list \<Rightarrow> demo \<Rightarrow> (failure + jsobject) \<times> demo" where
  "demo_update_profile header updates s =
     (case authenticate header s of
        Inl err \<Rightarrow> (Inl err, s)
      | Inr (key, u) \<Rightarrow>
          let u' = foldl assign_key u updates
          in (Inr (without_password u'), set_user key u' s))"

text \<open>
  \<^verbatim>\<open>app.get('/api/admin/users')\<close>: a missing token is 401, an invalid one or a caller who is
  not an admin is 403.
\<close>

definition demo_get_users :: "string option \<Rightarrow> demo \<Rightarrow> failure + jsobject list" where
  "demo_get_users header s =
     (let token = bearer header in
      if no_token token then Inl Unauthorized
      else (case validateSimpleToken (the token) s of
              None \<Rightarrow> Inl Forbidden
            | Some (key, u) \<Rightarrow>
                if u ''role'' \<noteq> Str ''admin'' then Inl Forbidden
                else Inr (map (\<lambda>(k, v). without_password v) (demoUsers s))))"

section \<open>Requests in sequence and the invariants of the store\<close>

text \<open>
  The requests that write to the store, except the course update and the course
  creation, whose bodies set fields of a course directly.
\<close>

datatype request =
  Enroll ident ident
  | Unenroll ident ident
  | DeleteCourse ident
  | ToggleStatus ident ident
  | UpdateRole ident ident "string option"
  | DeleteUser ident ident
  | UpdateProfile ident profile_body

fun serve :: "faults \<Rightarrow> int \<Rightarrow> request \<Rightarrow> db \<Rightarrow> db" where
  "serve flt now (Enroll uid cid) s = snd (enroll flt now uid cid s)"
| "serve flt now (Unenroll uid cid) s = snd (unenroll flt now uid cid s)"
| "serve flt now (DeleteCourse cid) s = snd (delete_course flt now cid s)"
| "serve flt now (ToggleStatus caller target) s = snd (toggle_status flt caller target s)"
| "serve flt now (UpdateRole caller target r) s = snd (update_role flt caller target r s)"
| "serve flt now (DeleteUser caller target) s = snd (delete_user flt caller target s)"
| "serve flt now (UpdateProfile caller body) s = snd (update_profile flt caller body s)"

text \<open>Each request of a sequence comes with the faults and the clock of its execution.\<close>

fun run :: "(faults \<times> int \<times> request) list \<Rightarrow> db \<Rightarrow> db" where
  "run [] s = s"
| "run ((flt, now, r) # rs) s = run rs (serve flt now r s)"

definition within_capacity :: "db \<Rightarrow> bool" where
  "within_capacity s = (\<forall>(cid, c) \<in> set (courses s). enrolledCount c \<le> capacity c)"

text \<open>
  A capacity is a whole number when it is its own floor. The course creation validates
  the capacity as an integer; the schema and the course update do not.
\<close>

definition whole :: "rat \<Rightarrow> bool" where
  "whole x = (of_int \<lfloor>x\<rfloor> = x)"

definition whole_capacities :: "db \<Rightarrow> bool" where
  "whole_capacities s = (\<forall>(cid, c) \<in> set (courses s). whole (capacity c))"

definition seats_respected :: "db \<Rightarrow> bool" where
  "seats_respected s = (within_capacity s \<and> whole_capacities s)"

text \<open>The store keeps \<^verbatim>\<open>_id\<close> unique within a collection.\<close>

definition unique_ids :: "db \<Rightarrow> bool" where
  "unique_ids s = (distinct (map fst (courses s)) \<and> distinct (map fst (users s)))"

definition consistent :: "db \<Rightarrow> bool" where
  "consistent s =
     (\<forall>(uid, u) \<in> set (users s). \<forall>(cid, c) \<in> set (courses s).
        (uid \<in> set (enrolledStudents c)) = (cid \<in> set (enrolledCourses u)))"

text \<open>The two sides of an enrollment, as a reader of the store sees them.\<close>

definition roster :: "db \<Rightarrow> ident \<Rightarrow> ident list option" where
  "roster s cid = map_option enrolledStudents (map_of (courses s) cid)"

definition enrolled_list :: "db \<Rightarrow> ident \<Rightarrow> ident list option" where
  "enrolled_list s uid = map_option enrolledCourses (map_of (users s) uid)"

subsection \<open>The same invariant on the demo server\<close>

text \<open>
  The elements of \<^verbatim>\<open>user.enrolledCourses\<close> when it is an array. A demo state is well formed
  when the keys of \<^verbatim>\<open>demoUsers\<close>, the ids of the users and the ids of the courses are each
  unique, and every user's \<^verbatim>\<open>enrolledCourses\<close> is an array or falsy.
\<close>

definition elements :: "jsval \<Rightarrow> jsval list" where
  "elements v = (case v of Arr xs \<Rightarrow> xs | _ \<Rightarrow> [])"

definition is_array :: "jsval \<Rightarrow> bool" where
  "is_array v = (case v of Arr xs \<Rightarrow> True | _ \<Rightarrow> False)"

definition demo_wellformed :: "demo \<Rightarrow> bool" where
  "demo_wellformed s =
     (distinct (map fst (demoUsers s))
      \<and> distinct (map (\<lambda>(key, u). u ''id'') (demoUsers s))
      \<and> distinct (map dc_id (demoCourses s))
      \<and> (\<forall>(key, u) \<in> set (demoUsers s).
            \<not> truthy (u ''enrolledCourses'') \<or> is_array (u ''enrolledCourses'')))"

definition demo_consistent :: "demo \<Rightarrow> bool" where
  "demo_consistent s =
     (\<forall>(key, u) \<in> set (demoUsers s). \<forall>c \<in> set (demoCourses s).
        (u ''id'' \<in> set (dc_enrolledStudents c))
          = (Str (dc_id c) \<in> set (elements (u ''enrolledCourses''))))"

section \<open>A store to evaluate on\<close>

text \<open>Ids of the documents of the example; no document is stored under \<open>id_unknown\<close>.\<close>

abbreviation id_cs101 :: ident where "id_cs101 \<equiv> ''64b7f0a1c2d3e4f506172801''"
abbreviation id_math201 :: ident where "id_math201 \<equiv> ''64b7f0a1c2d3e4f506172802''"
abbreviation id_eng102 :: ident where "id_eng102 \<equiv> ''64b7f0a1c2d3e4f506172803''"
abbreviation id_john :: ident where "id_john \<equiv> ''64b7f0a1c2d3e4f5061728a1''"
abbreviation id_jane :: ident where "id_jane \<equiv> ''64b7f0a1c2d3e4f5061728a2''"
abbreviation id_ravi :: ident where "id_ravi \<equiv> ''64b7f0a1c2d3e4f5061728a3''"
abbreviation id_admin :: ident where "id_admin \<equiv> ''64b7f0a1c2d3e4f5061728af''"
abbreviation id_instructor :: ident where "id_instructor \<equiv> ''64b7f0a1c2d3e4f5061728b1''"

definition cs101 :: course where
  "cs101 = \<lparr>courseCode = ''CS101'', courseName = ''Introduction to Computer Science'',
             instructor = ''Dr. Smith'', instructorId = None, capacity = 2,
             enrolledStudents = [id_john, id_jane], isActive = True, updatedAt = 0\<rparr>"

definition math201 :: course where
  "math201 = \<lparr>courseCode = ''MATH201'', courseName = ''Calculus I'',
               instructor = ''Dr. Johnson'', instructorId = Some id_instructor, capacity = 30,
               enrolledStudents = [id_john], isActive = True, updatedAt = 0\<rparr>"

definition eng102 :: course where
  "eng102 = \<lparr>courseCode = ''ENG102'', courseName = ''English Composition'',
              instructor = ''Prof. Davis'', instructorId = None, capacity = 30,
              enrolledStudents = [], isActive = False, updatedAt = 0\<rparr>"

definition john :: user where
  "john = \<lparr>name = ''John Student'', email = ''student@test.com'',
            password = Some ''password123'', role = ''student'',
            studentId = Some ''S123456'', department = Some ''Computer Science'',
            semester = Some 2, enrolledCourses = [id_cs101, id_math201], isActive = True,
            createdAt = 1\<rparr>"

definition jane :: user where
  "jane = \<lparr>name = ''Jane Student'', email = ''jane@test.com'',
            password = Some ''secret'', role = ''student'',
            studentId = Some ''S123457'', department = Some ''Mathematics'',
            semester = Some 3, enrolledCourses = [id_cs101], isActive = True,
            createdAt = 2\<rparr>"

definition ravi :: user where
  "ravi = \<lparr>name = ''Ravi Student'', email = ''ravi@test.com'',
            password = Some ''hunter2'', role = ''student'',
            studentId = Some ''S123458'', department = Some ''Physics'',
            semester = Some 1, enrolledCourses = [], isActive = True,
            createdAt = 3\<rparr>"

definition admin :: user where
  "admin = \<lparr>name = ''Admin User'', email = ''admin@test.com'',
             password = Some ''password123'', role = ''admin'',
             studentId = None, department = None, semester = None,
             enrolledCourses = [], isActive = True, createdAt = 0\<rparr>"

definition example_db :: db where
  "example_db =
     \<lparr>courses = [(id_cs101, cs101), (id_math201, math201), (id_eng102, eng102)],
      users = [(id_john, john), (id_jane, jane), (id_ravi, ravi), (id_admin, admin)]\<rparr>"

text \<open>The environment in which only the write to the user collection throws.\<close>

definition user_write_fails :: faults where
  "user_write_fails = (\<lambda>call. call = User_findByIdAndUpdate)"

text \<open>
  The request body \<^verbatim>\<open>{"$set": {"role": "admin"}}\<close> of a profile update, and the body of a
  registration.
\<close>

definition set_role_body :: profile_body where
  "set_role_body = \<lparr>body_fields = no_patch, body_set = no_patch\<lparr>p_role := Some ''admin''\<rparr>\<rparr>"

definition mia :: register_body where
  "mia = \<lparr>reg_name = Some ''Mia Student'', reg_email = Some ''mia@test.com'',
           reg_password = Some ''letmein'', reg_role = None, reg_studentId = Some ''S123459''\<rparr>"

text \<open>Authorization headers with the tokens of the two demo users.\<close>

definition student_header :: "string option" where
  "student_header = Some ''Bearer demo-token-1-1700000000000''"

definition admin_header :: "string option" where
  "admin_header = Some ''Bearer demo-token-2-1700000000000''"

text \<open>
  The example store after an admin's course update \<^verbatim>\<open>{"capacity": 2.5}\<close> of CS101, and
  the demo state after the student's profile update \<^verbatim>\<open>{"enrolledCourses": "abc"}\<close>.
\<close>

definition half_seat_db :: db where
  "half_seat_db =
     snd (update_course no_fault ''admin'' id_admin id_cs101
            \<lparr>p_capacity = Some (5 / 2), p_enrolledStudents = None, p_courseActive = None\<rparr>
            example_db)"


section \<open>Lemmas on the store\<close>

lemma set_update_cases:
  "(k', v') \<in> set (AList.update k v al) \<Longrightarrow> (k', v') = (k, v) \<or> (k', v') \<in> set al"
  by (induction al) (auto split: if_splits)

lemma courses_findByIdAndUpdate_user [simp]:
  "courses (findByIdAndUpdate_user uid upd s) = courses s"
  by (simp add: findByIdAndUpdate_user_def save_user_def split: option.splits)

lemma courses_save_user [simp]: "courses (save_user uid u s) = courses s"
  by (simp add: save_user_def)

lemma seats_respected_iff:
  "seats_respected s
     = (\<forall>(cid, c) \<in> set (courses s). enrolledCount c \<le> capacity c \<and> whole (capacity c))"
  by (auto simp: seats_respected_def within_capacity_def whole_capacities_def)

lemma seats_respected_users [simp]:
  "seats_respected (s\<lparr>users := us\<rparr>) = seats_respected s"
  by (simp add: seats_respected_iff)

lemma seats_respected_cong: "courses s' = courses s \<Longrightarrow> seats_respected s' = seats_respected s"
  by (simp add: seats_respected_iff)

lemma seats_respected_save:
  assumes "seats_respected s" and "enrolledCount c \<le> capacity c" and "whole (capacity c)"
  shows "seats_respected (save_course cid c s)"
  using assms
  by (auto simp: seats_respected_iff save_course_def dest!: set_update_cases)

lemma seats_respected_lookup:
  "seats_respected s \<Longrightarrow> map_of (courses s) cid = Some c
     \<Longrightarrow> enrolledCount c \<le> capacity c \<and> whole (capacity c)"
  by (auto simp: seats_respected_iff dest!: map_of_SomeD)

lemma availableSeats_nonneg:
  "within_capacity s \<Longrightarrow> (cid, c) \<in> set (courses s) \<Longrightarrow> 0 \<le> availableSeats c"
  by (auto simp: within_capacity_def availableSeats_def enrolledCount_def)

lemma filter_within:
  "rat_of_nat (length xs) \<le> cap \<Longrightarrow> rat_of_nat (length (filter P xs)) \<le> cap"
proof -
  have "rat_of_nat (length (filter P xs)) \<le> rat_of_nat (length xs)"
    by (simp add: length_filter_le)
  then show "rat_of_nat (length xs) \<le> cap \<Longrightarrow> rat_of_nat (length (filter P xs)) \<le> cap"
    by linarith
qed

text \<open>Below a whole capacity there is room for one more.\<close>

lemma one_more_fits:
  assumes "whole cap" and "rat_of_nat n < cap"
  shows "rat_of_nat (Suc n) \<le> cap"
proof -
  have cap: "cap = rat_of_int \<lfloor>cap\<rfloor>"
    using assms(1) unfolding whole_def by (rule sym)
  have "rat_of_int (int n) < rat_of_int \<lfloor>cap\<rfloor>"
    using assms(2) cap by simp
  then have "int n < \<lfloor>cap\<rfloor>"
    by (simp only: of_int_less_iff)
  then have "int (Suc n) \<le> \<lfloor>cap\<rfloor>"
    by simp
  then have "rat_of_int (int (Suc n)) \<le> rat_of_int \<lfloor>cap\<rfloor>"
    by (simp only: of_int_le_iff)
  then show ?thesis
    using cap by simp
qed

lemma enroll_seats_respected:
  assumes "seats_respected s"
  shows "seats_respected (snd (enroll flt now uid cid s))"
proof (cases "map_of (courses s) cid")
  case None
  then show ?thesis using assms by (simp add: enroll_def)
next
  case (Some c)
  let ?c' = "pre_save now (c\<lparr>enrolledStudents := enrolledStudents c @ [uid]\<rparr>)"
  have w: "whole (capacity c)"
    using assms Some by (simp add: seats_respected_lookup)
  have "rat_of_nat (length (enrolledStudents c)) < capacity c
          \<Longrightarrow> seats_respected (save_course cid ?c' s)"
    using assms one_more_fits [OF w, of "length (enrolledStudents c)"] w
    by (intro seats_respected_save) (simp_all add: enrolledCount_def pre_save_def)
  then show ?thesis
    using assms Some
    by (simp add: enroll_def Let_def not_le
          seats_respected_cong [of "findByIdAndUpdate_user _ _ _"])
qed

lemma unenroll_seats_respected:
  assumes "seats_respected s"
  shows "seats_respected (snd (unenroll flt now uid cid s))"
proof (cases "map_of (courses s) cid")
  case None
  then show ?thesis using assms by (simp add: unenroll_def)
next
  case (Some c)
  let ?c' = "pre_save now (c\<lparr>enrolledStudents := filter (\<lambda>studentId. studentId \<noteq> uid) (enrolledStudents c)\<rparr>)"
  have "enrolledCount c \<le> capacity c \<and> whole (capacity c)"
    using assms Some by (rule seats_respected_lookup)
  then have "seats_respected (save_course cid ?c' s)"
    using assms by (intro seats_respected_save) (simp_all add: enrolledCount_def pre_save_def filter_within)
  then show ?thesis
    using assms Some
    by (simp add: unenroll_def Let_def seats_respected_cong [of "findByIdAndUpdate_user _ _ _"])
qed

lemma delete_course_seats_respected:
  assumes "seats_respected s"
  shows "seats_respected (snd (delete_course flt now cid s))"
proof (cases "map_of (courses s) cid")
  case None
  then show ?thesis using assms by (simp add: delete_course_def)
next
  case (Some c)
  have "enrolledCount c \<le> capacity c \<and> whole (capacity c)"
    using assms Some by (rule seats_respected_lookup)
  then have "seats_respected (save_course cid (pre_save now (c\<lparr>course.isActive := False\<rparr>)) s)"
    using assms by (intro seats_respected_save) (simp_all add: enrolledCount_def pre_save_def)
  then show ?thesis
    using assms Some by (simp add: delete_course_def)
qed

lemma pull_from_rosters_within:
  assumes "\<forall>(cid, c) \<in> set cs. enrolledCount c \<le> capacity c \<and> whole (capacity c)"
  shows "\<forall>(cid, c) \<in> set (pull_from_rosters uid cs).
           enrolledCount c \<le> capacity c \<and> whole (capacity c)"
proof -
  have base: "rat_of_nat (length (enrolledStudents c)) \<le> capacity c \<and> whole (capacity c)"
    if "(k, c) \<in> set cs" for k c
    using assms that by (auto simp: enrolledCount_def)
  show ?thesis
    by (auto simp: pull_from_rosters_def pull_def enrolledCount_def
          intro!: filter_within dest: base)
qed

lemma delete_user_seats_respected:
  assumes "seats_respected s"
  shows "seats_respected (snd (delete_user flt caller target s))"
proof -
  have "seats_respected (s\<lparr>courses := pull_from_rosters target (courses s)\<rparr>)"
    using assms pull_from_rosters_within [of "courses s" target]
    by (simp add: seats_respected_iff)
  then show ?thesis
    using assms
    by (simp add: delete_user_def Let_def split: option.splits)
qed

lemma toggle_status_courses [simp]:
  "courses (snd (toggle_status flt caller target s)) = courses s"
  by (simp add: toggle_status_def Let_def split: option.splits)

lemma update_role_courses [simp]:
  "courses (snd (update_role flt caller target r s)) = courses s"
  by (simp add: update_role_def Let_def split: option.splits)

lemma update_profile_courses [simp]:
  "courses (snd (update_profile flt caller body s)) = courses s"
  by (simp add: update_profile_def Let_def)

lemma serve_seats_respected:
  "seats_respected s \<Longrightarrow> seats_respected (serve flt now r s)"
  by (cases r)
    (simp_all add: enroll_seats_respected unenroll_seats_respected
       delete_course_seats_respected delete_user_seats_respected
       seats_respected_cong [of "snd (toggle_status _ _ _ _)"]
       seats_respected_cong [of "snd (update_role _ _ _ _ _)"]
       seats_respected_cong [of "snd (update_profile _ _ _ _)"])

lemma run_seats_respected:
  "seats_respected s \<Longrightarrow> seats_respected (run rs s)"
  by (induction rs arbitrary: s) (auto simp: serve_seats_respected)

lemma enroll_full:
  assumes "map_of (courses s) cid = Some c" and "course.isActive c"
    and "uid \<notin> set (enrolledStudents c)" and "capacity c \<le> enrolledCount c"
    and "\<not> flt Course_findById"
  shows "enroll flt now uid cid s = (Inl CapacityExceeded, s)"
  using assms by (simp add: enroll_def enrolledCount_def)

lemma in_set_update:
  assumes "distinct (map fst al)"
  shows "((k', v') \<in> set (AList.update k v al)) = (if k' = k then v' = v else (k', v') \<in> set al)"
proof -
  have d: "distinct (map fst (AList.update k v al))"
    using assms by (rule distinct_update)
  have "((k', v') \<in> set (AList.update k v al)) = (map_of (AList.update k v al) k' = Some v')"
    using d by simp
  also have "\<dots> = (((map_of al)(k \<mapsto> v)) k' = Some v')"
    by (simp add: update_conv')
  also have "\<dots> = (if k' = k then v' = v else (k', v') \<in> set al)"
    using assms by auto
  finally show ?thesis .
qed

lemma unique_ids_save_course: "unique_ids s \<Longrightarrow> unique_ids (save_course cid c s)"
  by (simp add: unique_ids_def save_course_def distinct_update)

lemma unique_ids_save_user: "unique_ids s \<Longrightarrow> unique_ids (save_user uid u s)"
  by (simp add: unique_ids_def save_user_def distinct_update)

lemma unique_ids_findByIdAndUpdate_user:
  "unique_ids s \<Longrightarrow> unique_ids (findByIdAndUpdate_user uid upd s)"
  by (simp add: findByIdAndUpdate_user_def unique_ids_save_user split: option.splits)

lemma consistent_both_sides:
  assumes u: "unique_ids s" and c: "consistent s"
    and lc: "map_of (courses s) cid = Some co"
    and r: "\<forall>x. x \<noteq> uid \<longrightarrow> (x \<in> set (enrolledStudents co')) = (x \<in> set (enrolledStudents co))"
    and e: "\<forall>us. map_of (users s) uid = Some us \<longrightarrow>
              (\<forall>y. y \<noteq> cid \<longrightarrow> (y \<in> set (enrolledCourses (f us))) = (y \<in> set (enrolledCourses us)))
              \<and> ((cid \<in> set (enrolledCourses (f us))) = (uid \<in> set (enrolledStudents co')))"
  shows "consistent
           (case map_of (users s) uid of
              None \<Rightarrow> save_course cid co' s
            | Some us \<Rightarrow> save_user uid (f us) (save_course cid co' s))"
proof -
  have dc: "distinct (map fst (courses s))" and du: "distinct (map fst (users s))"
    using u by (simp_all add: unique_ids_def)
  have old: "(x \<in> set (enrolledStudents c0)) = (k \<in> set (enrolledCourses u0))"
    if "(x, u0) \<in> set (users s)" and "(k, c0) \<in> set (courses s)" for x u0 k c0
    using c that by (auto simp: consistent_def)
  have co: "(cid, co) \<in> set (courses s)"
    using lc by (rule map_of_SomeD)
  show ?thesis
  proof (cases "map_of (users s) uid")
    case None
    then have nouser: "(uid, u0) \<notin> set (users s)" for u0
      using None by (force simp: map_of_eq_None_iff)
    show ?thesis
      unfolding None consistent_def
      apply (clarsimp simp: save_course_def in_set_update [OF dc] split: if_splits)
      using nouser old co r apply metis
      using old apply blast
      done
  next
    case (Some us)
    then have us: "(uid, us) \<in> set (users s)"
      by (rule map_of_SomeD)
    from e Some have e1: "\<forall>y. y \<noteq> cid \<longrightarrow> (y \<in> set (enrolledCourses (f us))) = (y \<in> set (enrolledCourses us))"
      and e2: "(cid \<in> set (enrolledCourses (f us))) = (uid \<in> set (enrolledStudents co'))"
      by simp_all
    show ?thesis
      unfolding Some consistent_def
      apply (clarsimp simp: save_course_def save_user_def in_set_update [OF dc] in_set_update [OF du]
                split: if_splits)
      subgoal using e2 by simp
      subgoal using e1 old us by metis
      subgoal using r old co by metis
      subgoal using old by blast
      done
  qed
qed


lemma apply_patch_none [simp]: "apply_patch no_patch u = u"
  by (simp add: apply_patch_def no_patch_def)

lemma apply_update_addToSet [simp]:
  "apply_update (no_update\<lparr>addToSet_enrolledCourses := Some cid\<rparr>) u
     = u\<lparr>enrolledCourses := addToSet cid (enrolledCourses u)\<rparr>"
  by (simp add: apply_update_def no_update_def)

lemma apply_update_pull [simp]:
  "apply_update (no_update\<lparr>pull_enrolledCourses := Some cid\<rparr>) u
     = u\<lparr>enrolledCourses := pull cid (enrolledCourses u)\<rparr>"
  by (simp add: apply_update_def no_update_def)

lemma users_save_course [simp]: "users (save_course cid c s) = users s"
  by (simp add: save_course_def)

lemma set_addToSet [simp]: "set (addToSet x xs) = insert x (set xs)"
  by (auto simp: addToSet_def)

lemma set_pull [simp]: "set (pull x xs) = set xs - {x}"
  by (auto simp: pull_def)

lemma enroll_consistent:
  assumes "unique_ids s" and "consistent s" and "\<not> flt User_findByIdAndUpdate"
  shows "consistent (snd (enroll flt now uid cid s))"
proof (cases "map_of (courses s) cid")
  case None
  then show ?thesis using assms by (simp add: enroll_def)
next
  case (Some c)
  let ?c' = "pre_save now (c\<lparr>enrolledStudents := enrolledStudents c @ [uid]\<rparr>)"
  have "consistent
          (case map_of (users s) uid of
             None \<Rightarrow> save_course cid ?c' s
           | Some us \<Rightarrow>
               save_user uid (us\<lparr>enrolledCourses := addToSet cid (enrolledCourses us)\<rparr>)
                 (save_course cid ?c' s))"
    using assms(1,2) Some by (rule consistent_both_sides) (auto simp: pre_save_def)
  then show ?thesis
    using assms Some
    by (simp add: enroll_def Let_def findByIdAndUpdate_user_def cong: option.case_cong)
qed

lemma unenroll_consistent:
  assumes "unique_ids s" and "consistent s" and "\<not> flt User_findByIdAndUpdate"
  shows "consistent (snd (unenroll flt now uid cid s))"
proof (cases "map_of (courses s) cid")
  case None
  then show ?thesis using assms by (simp add: unenroll_def)
next
  case (Some c)
  let ?c' = "pre_save now (c\<lparr>enrolledStudents :=
               filter (\<lambda>studentId. studentId \<noteq> uid) (enrolledStudents c)\<rparr>)"
  have "consistent
          (case map_of (users s) uid of
             None \<Rightarrow> save_course cid ?c' s
           | Some us \<Rightarrow>
               save_user uid (us\<lparr>enrolledCourses := pull cid (enrolledCourses us)\<rparr>)
                 (save_course cid ?c' s))"
    using assms(1,2) Some by (rule consistent_both_sides) (auto simp: pre_save_def)
  then show ?thesis
    using assms Some
    by (simp add: unenroll_def Let_def findByIdAndUpdate_user_def cong: option.case_cong)
qed

lemma enroll_unique_ids: "unique_ids s \<Longrightarrow> unique_ids (snd (enroll flt now uid cid s))"
  by (simp add: enroll_def Let_def unique_ids_save_course unique_ids_findByIdAndUpdate_user
        split: option.splits)

lemma unenroll_unique_ids: "unique_ids s \<Longrightarrow> unique_ids (snd (unenroll flt now uid cid s))"
  by (simp add: unenroll_def Let_def unique_ids_save_course unique_ids_findByIdAndUpdate_user
        split: option.splits)

section \<open>Lemmas on the demo server\<close>

lemma authenticate_lookup:
  "authenticate header s = Inr (key, u) \<Longrightarrow> map_of (demoUsers s) key = Some u"
  by (auto simp: authenticate_def validateSimpleToken_def Let_def split: if_splits option.splits)

lemma find_course_Some:
  "find_course cid cs = Some c \<Longrightarrow> c \<in> set cs \<and> dc_id c = cid"
  by (auto simp: find_course_def find_Some_iff)

lemma find_course_None:
  "find_course cid cs = None \<longleftrightarrow> cid \<notin> dc_id ` set cs"
  by (auto simp: find_course_def find_None_iff)

lemma map_id_set_course:
  "dc_id c' = cid \<Longrightarrow> map dc_id (set_course cid c' cs) = map dc_id cs"
  by (induction cs) auto

lemma set_set_course:
  assumes "distinct (map dc_id cs)" and "find_course cid cs = Some c" and "dc_id c' = cid"
  shows "set (set_course cid c' cs) = insert c' (set cs - {c})"
  using assms
proof (induction cs)
  case Nil
  then show ?case by (simp add: find_course_def)
next
  case (Cons a cs)
  show ?case
  proof (cases "dc_id a = cid")
    case True
    then have "c = a" using Cons.prems(2) by (simp add: find_course_def)
    moreover have "a \<notin> set cs" using Cons.prems(1) by auto
    ultimately show ?thesis using True by auto
  next
    case False
    then have f: "find_course cid cs = Some c" using Cons.prems(2) by (simp add: find_course_def)
    then have "c \<in> set cs" and "dc_id c = cid" by (simp_all add: find_course_Some)
    then have "a \<noteq> c" and "a \<noteq> c'" using False Cons.prems(3) by auto
    moreover have "set (set_course cid c' cs) = insert c' (set cs - {c})"
      using Cons.IH Cons.prems(1,3) f by simp
    ultimately show ?thesis using False by auto
  qed
qed

lemma ids_update_same:
  "map_of us key = Some u \<Longrightarrow> u' ''id'' = (u ''id'' :: jsval)
     \<Longrightarrow> map (\<lambda>(k, v). v ''id'') (AList.update key u' us) = map (\<lambda>(k, v). v ''id'') us"
  by (induction us) auto

lemma distinct_ids_same:
  assumes "distinct (map (\<lambda>(key, u). u ''id'') us)"
    and "(k1, u1) \<in> set us" and "(k2, u2) \<in> set us" and "u1 ''id'' = (u2 ''id'' :: jsval)"
  shows "k1 = k2 \<and> u1 = u2"
proof -
  have "inj_on (\<lambda>(key, u). u ''id'') (set us)"
    using assms(1) by (simp add: distinct_map)
  then have "(k1, u1) = (k2, u2)"
    by (rule inj_onD) (use assms(2-4) in simp_all)
  then show ?thesis by simp
qed

lemma demo_both_sides:
  assumes wf: "demo_wellformed s" and con: "demo_consistent s"
    and lu: "map_of (demoUsers s) key = Some u"
    and fc: "find_course cid (demoCourses s) = Some c"
    and c': "dc_id c' = cid"
    and u': "u' ''id'' = u ''id''"
    and r: "\<forall>x. x \<noteq> u ''id'' \<longrightarrow> (x \<in> set (dc_enrolledStudents c')) = (x \<in> set (dc_enrolledStudents c))"
    and e: "\<forall>y. y \<noteq> Str cid \<longrightarrow> (y \<in> set (elements (u' ''enrolledCourses'')))
                                     = (y \<in> set (elements (u ''enrolledCourses'')))"
    and b: "(u ''id'' \<in> set (dc_enrolledStudents c')) = (Str cid \<in> set (elements (u' ''enrolledCourses'')))"
  shows "demo_consistent (set_user key u' (s\<lparr>demoCourses := set_course cid c' (demoCourses s)\<rparr>))"
proof -
  have dk: "distinct (map fst (demoUsers s))"
    and di: "distinct (map (\<lambda>(key, u). u ''id'') (demoUsers s))"
    and dc: "distinct (map dc_id (demoCourses s))"
    using wf by (simp_all add: demo_wellformed_def)
  have uin: "(key, u) \<in> set (demoUsers s)" using lu by (rule map_of_SomeD)
  have cin: "c \<in> set (demoCourses s)" and cid: "dc_id c = cid"
    using fc by (simp_all add: find_course_Some)
  have cs: "set (set_course cid c' (demoCourses s)) = insert c' (set (demoCourses s) - {c})"
    using dc fc c' by (rule set_set_course)
  have old: "(u0 ''id'' \<in> set (dc_enrolledStudents c0))
               = (Str (dc_id c0) \<in> set (elements (u0 ''enrolledCourses'')))"
    if "(k0, u0) \<in> set (demoUsers s)" and "c0 \<in> set (demoCourses s)" for k0 u0 c0
    using con that by (auto simp: demo_consistent_def)
  have other_course: "dc_id c0 \<noteq> cid" if "c0 \<in> set (demoCourses s)" and "c0 \<noteq> c" for c0
    using dc that cin cid by (metis distinct_map inj_onD)
  have other_user: "u0 ''id'' \<noteq> u ''id''" if "(k0, u0) \<in> set (demoUsers s)" and "k0 \<noteq> key" for k0 u0
    using distinct_ids_same [OF di that(1) uin] that(2) by auto
  show ?thesis
    unfolding demo_consistent_def
  proof (clarsimp simp: set_user_def in_set_update [OF dk] cs)
    fix k0 u0 c0
    assume k: "if k0 = key then u0 = u' else (k0, u0) \<in> set (demoUsers s)"
    show "((u0 ''id'' \<in> set (dc_enrolledStudents c'))
             = (Str (dc_id c') \<in> set (elements (u0 ''enrolledCourses''))))
          \<and> (\<forall>c0 \<in> set (demoCourses s) - {c}.
                (u0 ''id'' \<in> set (dc_enrolledStudents c0))
                  = (Str (dc_id c0) \<in> set (elements (u0 ''enrolledCourses''))))"
    proof (cases "k0 = key")
      case True
      then have [simp]: "u0 = u'" using k by simp
      have "(u ''id'' \<in> set (dc_enrolledStudents c0))
              = (Str (dc_id c0) \<in> set (elements (u' ''enrolledCourses'')))"
        if "c0 \<in> set (demoCourses s)" and "c0 \<noteq> c" for c0
        using old [OF uin that(1)] e other_course [OF that] by simp
      then show ?thesis using b c' u' by auto
    next
      case False
      then have in0: "(k0, u0) \<in> set (demoUsers s)" using k by simp
      have "(u0 ''id'' \<in> set (dc_enrolledStudents c')) = (u0 ''id'' \<in> set (dc_enrolledStudents c))"
        using r other_user [OF in0 False] by simp
      then show ?thesis using old [OF in0] cin cid c' by auto
    qed
  qed
qed


lemma demo_wellformed_step:
  assumes wf: "demo_wellformed s"
    and lu: "map_of (demoUsers s) key = Some u"
    and c': "dc_id c' = cid"
    and u': "u' ''id'' = u ''id''"
    and a: "is_array (u' ''enrolledCourses'')"
  shows "demo_wellformed (set_user key u' (s\<lparr>demoCourses := set_course cid c' (demoCourses s)\<rparr>))"
proof -
  have dk: "distinct (map fst (demoUsers s))" using wf by (simp add: demo_wellformed_def)
  have "map (\<lambda>(k, v). v ''id'') (AList.update key u' (demoUsers s))
          = map (\<lambda>(k, v). v ''id'') (demoUsers s)"
    using lu u' by (rule ids_update_same)
  then show ?thesis
    using wf a c'
    by (auto simp: demo_wellformed_def set_user_def distinct_update map_id_set_course
          in_set_update [OF dk] split: if_splits)
qed

lemma elements_falsy: "\<not> truthy v \<Longrightarrow> elements v = []"
  by (cases v) (simp_all add: elements_def)

lemma is_array_elements: "is_array v \<Longrightarrow> v = Arr (elements v)"
  by (cases v) (simp_all add: elements_def is_array_def)

lemma wellformed_lookup:
  "demo_wellformed s \<Longrightarrow> map_of (demoUsers s) key = Some u
     \<Longrightarrow> \<not> truthy (u ''enrolledCourses'') \<or> is_array (u ''enrolledCourses'')"
  by (auto simp: demo_wellformed_def dest!: map_of_SomeD)

lemma demo_enroll_invariant:
  assumes wf: "demo_wellformed s" and con: "demo_consistent s"
  shows "demo_wellformed (snd (demo_enroll header cid s))
       \<and> demo_consistent (snd (demo_enroll header cid s))"
proof (cases "authenticate header s")
  case (Inl err)
  then show ?thesis using assms by (simp add: demo_enroll_def)
next
  case (Inr ku)
  obtain key u where ku: "ku = (key, u)" by (cases ku)
  have lu: "map_of (demoUsers s) key = Some u"
    using Inr ku by (simp add: authenticate_lookup)
  show ?thesis
  proof (cases "find_course cid (demoCourses s)")
    case None
    then show ?thesis using assms Inr ku by (simp add: demo_enroll_def)
  next
    case (Some c)
    have cid: "dc_id c = cid" using Some by (simp add: find_course_Some)
    let ?c' = "c\<lparr>dc_enrolledStudents := dc_enrolledStudents c @ [u ''id'']\<rparr>"
    let ?s1 = "s\<lparr>demoCourses := set_course cid ?c' (demoCourses s)\<rparr>"
    have step: "demo_wellformed (set_user key (u(''enrolledCourses'' := Arr (xs @ [Str cid]))) ?s1)
       \<and> demo_consistent (set_user key (u(''enrolledCourses'' := Arr (xs @ [Str cid]))) ?s1)"
      if "elements (u ''enrolledCourses'') = xs" for xs
    proof
      show "demo_wellformed (set_user key (u(''enrolledCourses'' := Arr (xs @ [Str cid]))) ?s1)"
        using wf lu by (rule demo_wellformed_step) (simp_all add: cid is_array_def)
      show "demo_consistent (set_user key (u(''enrolledCourses'' := Arr (xs @ [Str cid]))) ?s1)"
        using wf con lu Some
        by (rule demo_both_sides) (auto simp: cid elements_def that [symmetric])
    qed
    consider (falsy) "\<not> truthy (u ''enrolledCourses'')"
      | (array) "truthy (u ''enrolledCourses'')" "is_array (u ''enrolledCourses'')"
      using wellformed_lookup [OF wf lu] by blast
    then show ?thesis
    proof cases
      case falsy
      then show ?thesis
        using assms Inr ku Some step [of "[]"] cid
        by (simp add: demo_enroll_def Let_def elements_falsy)
    next
      case array
      then obtain xs where xs: "u ''enrolledCourses'' = Arr xs"
        using is_array_elements by blast
      then show ?thesis
        using assms Inr ku Some step [of xs] cid array
        by (simp add: demo_enroll_def Let_def elements_def)
    qed
  qed
qed

lemma demo_unenroll_invariant:
  assumes wf: "demo_wellformed s" and con: "demo_consistent s"
  shows "demo_wellformed (snd (demo_unenroll header cid s))
       \<and> demo_consistent (snd (demo_unenroll header cid s))"
proof (cases "authenticate header s")
  case (Inl err)
  then show ?thesis using assms by (simp add: demo_unenroll_def)
next
  case (Inr ku)
  obtain key u where ku: "ku = (key, u)" by (cases ku)
  have lu: "map_of (demoUsers s) key = Some u"
    using Inr ku by (simp add: authenticate_lookup)
  show ?thesis
  proof (cases "find_course cid (demoCourses s)")
    case None
    then show ?thesis using assms Inr ku by (simp add: demo_unenroll_def)
  next
    case (Some c)
    have cid: "dc_id c = cid" and cin: "c \<in> set (demoCourses s)"
      using Some by (simp_all add: find_course_Some)
    show ?thesis
    proof (cases "u ''id'' \<in> set (dc_enrolledStudents c)")
      case False
      then show ?thesis using assms Inr ku Some by (simp add: demo_unenroll_def)
    next
      case True
      have "Str cid \<in> set (elements (u ''enrolledCourses''))"
        using con map_of_SomeD [OF lu] cin True cid by (auto simp: demo_consistent_def)
      then obtain xs where xs: "u ''enrolledCourses'' = Arr xs"
        by (cases "u ''enrolledCourses''") (simp_all add: elements_def)
      let ?c' = "c\<lparr>dc_enrolledStudents := filter (\<lambda>i. i \<noteq> u ''id'') (dc_enrolledStudents c)\<rparr>"
      let ?u' = "u(''enrolledCourses'' := Arr (filter (\<lambda>i. i \<noteq> Str cid) xs))"
      let ?s1 = "s\<lparr>demoCourses := set_course cid ?c' (demoCourses s)\<rparr>"
      have "demo_wellformed (set_user key ?u' ?s1)"
        using wf lu by (rule demo_wellformed_step) (simp_all add: cid is_array_def)
      moreover have "demo_consistent (set_user key ?u' ?s1)"
        using wf con lu Some
        by (rule demo_both_sides) (auto simp: cid elements_def xs)
      ultimately show ?thesis
        using Inr ku Some True xs cid
        by (simp add: demo_unenroll_def Let_def)
    qed
  qed
qed


lemmas example_defs = example_db_def cs101_def math201_def eng102_def john_def jane_def
  ravi_def admin_def

section \<open>Lemmas on the two sides of an enrollment\<close>

lemma roster_save_course [simp]:
  "roster (save_course cid c s) cid = Some (enrolledStudents c)"
  by (simp add: roster_def save_course_def update_conv')

lemma roster_findByIdAndUpdate_user [simp]:
  "roster (findByIdAndUpdate_user uid upd s) cid = roster s cid"
  by (simp add: roster_def)

lemma enrolled_list_save_course [simp]:
  "enrolled_list (save_course cid c s) uid = enrolled_list s uid"
  by (simp add: enrolled_list_def)

lemma enrolled_list_findByIdAndUpdate_user [simp]:
  "enrolled_list (findByIdAndUpdate_user uid upd s) uid
     = map_option (\<lambda>u. enrolledCourses (apply_update upd u)) (map_of (users s) uid)"
  by (simp add: enrolled_list_def findByIdAndUpdate_user_def save_user_def update_conv'
        split: option.splits)

lemma enroll_both_or_neither:
  assumes "\<not> flt User_findByIdAndUpdate"
  shows "case fst (enroll flt now uid cid s) of
           Inl err \<Rightarrow> snd (enroll flt now uid cid s) = s
         | Inr c' \<Rightarrow>
             roster (snd (enroll flt now uid cid s)) cid
               = map_option (\<lambda>r. r @ [uid]) (roster s cid)
             \<and> enrolled_list (snd (enroll flt now uid cid s)) uid
               = map_option (addToSet cid) (enrolled_list s uid)"
  using assms
  by (simp add: enroll_def Let_def pre_save_def option.map_comp comp_def
        split: option.splits)
    (simp add: roster_def enrolled_list_def option.map_comp comp_def)

lemma unenroll_both_or_neither:
  assumes "\<not> flt User_findByIdAndUpdate"
  shows "case fst (unenroll flt now uid cid s) of
           Inl err \<Rightarrow> snd (unenroll flt now uid cid s) = s
         | Inr ok \<Rightarrow>
             roster (snd (unenroll flt now uid cid s)) cid
               = map_option (pull uid) (roster s cid)
             \<and> enrolled_list (snd (unenroll flt now uid cid s)) uid
               = map_option (pull cid) (enrolled_list s uid)"
  using assms
  by (simp add: unenroll_def Let_def pre_save_def option.map_comp comp_def
        split: option.splits)
    (simp add: roster_def enrolled_list_def pull_def option.map_comp comp_def)

lemma enroll_one_side:
  assumes "flt User_findByIdAndUpdate" and "\<not> flt Course_findById" and "\<not> flt Course_save"
    and "map_of (courses s) cid = Some c" and "course.isActive c"
    and "uid \<notin> set (enrolledStudents c)" and "enrolledCount c < capacity c"
  shows "fst (enroll flt now uid cid s) = Inl ServerFault
     \<and> roster (snd (enroll flt now uid cid s)) cid = Some (enrolledStudents c @ [uid])
     \<and> users (snd (enroll flt now uid cid s)) = users s"
  using assms by (simp add: enroll_def Let_def pre_save_def enrolledCount_def)

lemma unenroll_one_side:
  assumes "flt User_findByIdAndUpdate" and "\<not> flt Course_findById" and "\<not> flt Course_save"
    and "map_of (courses s) cid = Some c" and "uid \<in> set (enrolledStudents c)"
  shows "fst (unenroll flt now uid cid s) = Inl ServerFault
     \<and> roster (snd (unenroll flt now uid cid s)) cid = Some (pull uid (enrolledStudents c))
     \<and> users (snd (unenroll flt now uid cid s)) = users s"
  using assms by (simp add: unenroll_def Let_def pre_save_def pull_def)



text \<open>The example states satisfy the invariants.\<close>

lemma example_db_consistent: "unique_ids example_db \<and> consistent example_db"
  by (simp add: unique_ids_def consistent_def example_defs)

lemma initial_demo_consistent: "demo_wellformed initial_demo \<and> demo_consistent initial_demo"
  by (simp add: demo_wellformed_def demo_consistent_def initial_demo_def demo_student_def
        demo_admin_def object_of_def elements_def is_array_def)


section \<open>Lemmas on the outcomes of enroll and unenroll\<close>



lemma map_of_set_user [simp]: "map_of (demoUsers (set_user key u s)) key = Some u"
  by (simp add: set_user_def update_conv')

lemma demoCourses_set_user [simp]: "demoCourses (set_user key u s) = demoCourses s"
  by (simp add: set_user_def)



lemma courses_save_course_lookup [simp]:
  "map_of (courses (save_course cid c s)) cid = Some c"
  by (simp add: save_course_def update_conv')









text \<open>The tokens of the two demo users authenticate them.\<close>

lemma student_authenticates:
  "authenticate student_header initial_demo = Inr (''student@test.com'', demo_student)"
  by (simp add: authenticate_def student_header_def bearer_def element_def no_token_def
        validateSimpleToken_def startsWith_def initial_demo_def Let_def)

lemma admin_authenticates:
  "authenticate admin_header initial_demo = Inr (''admin@test.com'', demo_admin)"
  by (simp add: authenticate_def admin_header_def bearer_def element_def no_token_def
        validateSimpleToken_def startsWith_def initial_demo_def Let_def)


section \<open>Lemmas on administration, profiles and responses\<close>

lemma in_pull_from_rosters:
  "(k, c) \<in> set (pull_from_rosters uid cs) \<Longrightarrow> uid \<notin> set (enrolledStudents c)"
  by (auto simp: pull_from_rosters_def split: if_splits)


lemma foldl_assign_key_identity:
  "k = ''email'' \<or> k = ''password'' \<or> k = ''role'' \<Longrightarrow> foldl assign_key u updates k = u k"
  by (induction updates arbitrary: u) (auto simp: assign_key_def)

lemma demo_update_profile_keeps_identity:
  assumes "authenticate header d = Inr (key, u)"
  shows "\<exists>u'. map_of (demoUsers (snd (demo_update_profile header updates d))) key = Some u'
           \<and> u' ''email'' = u ''email'' \<and> u' ''role'' = u ''role''
           \<and> u' ''password'' = u ''password''"
  using assms by (simp add: demo_update_profile_def Let_def foldl_assign_key_identity)

lemma update_profile_top_level_keeps_identity:
  assumes "map_of (users s) caller = Some u" and "body_set body = no_patch"
    and "map_of (users (snd (update_profile flt caller body s))) caller = Some u'"
  shows "email u' = email u \<and> role u' = role u \<and> password u' = password u
           \<and> studentId u' = studentId u"
  using assms
  by (auto simp: update_profile_def Let_def findByIdAndUpdate_user_def save_user_def
        update_conv' apply_update_def apply_patch_def no_update_def no_patch_def
        delete_identity_keys_def sanitize_def split: if_splits)


lemma toString_3: "toString (Suc (Suc (Suc 0))) = ''3''"
  by (subst toString.simps) (simp add: numeral_3_eq_3 [symmetric])

lemma without_password_undefined [simp]: "without_password u ''password'' = Undefined"
  by (simp add: without_password_def)

lemma select_minus_password_none [simp]: "password (select_minus_password u) = None"
  by (simp add: select_minus_password_def)

lemma login_response: "login e pw d = Inr r \<Longrightarrow> r ''password'' = Undefined"
  by (auto simp: login_def split: option.splits if_splits)

lemma register_response: "fst (register now body d) = Inr r \<Longrightarrow> r ''password'' = Undefined"
  by (auto simp: register_def Let_def split: if_splits)

lemma me_response: "me header d = Inr r \<Longrightarrow> r ''password'' = Undefined"
  by (auto simp: me_def split: sum.splits)

lemma demo_get_profile_response: "demo_get_profile header d = Inr r \<Longrightarrow> r ''password'' = Undefined"
  by (auto simp: demo_get_profile_def split: sum.splits if_splits)

lemma demo_get_users_response:
  "demo_get_users header d = Inr rs \<Longrightarrow> r \<in> set rs \<Longrightarrow> r ''password'' = Undefined"
  by (auto simp: demo_get_users_def Let_def split: option.splits if_splits)

lemma get_profile_response: "get_profile flt caller s = Inr (u, cs) \<Longrightarrow> password u = None"
  by (auto simp: get_profile_def split: option.splits if_splits)

lemma get_users_response: "(k, u) \<in> set (get_users flt now s) \<Longrightarrow> password u = None"
  by (auto simp: get_users_def fallback_users_def split: if_splits)


section \<open>The claims\<close>

subsection \<open>C1: rosters and capacity\<close>

text \<open>
  C1, as the code has it. From a store in which every roster is within its capacity and
  every capacity is a whole number, every sequence of enroll, unenroll, soft-delete,
  status, role, delete-user and profile requests, with or without store faults, leads to
  such a store again; and an enroll request by a student who is not in the roster of an
  existing, active course whose roster has reached the capacity is answered with
  \<open>CapacityExceeded\<close>, both collections staying as they were.
\<close>

theorem capacity_kept_by_enrollment:
  assumes "within_capacity s" and "whole_capacities s"
  shows "within_capacity (run rs s) \<and> whole_capacities (run rs s)
     \<and> (map_of (courses s) cid = Some c \<and> course.isActive c \<and> uid \<notin> set (enrolledStudents c)
          \<and> capacity c \<le> enrolledCount c \<and> \<not> flt Course_findById
        \<longrightarrow> enroll flt now uid cid s = (Inl CapacityExceeded, s))"
proof -
  have "seats_respected (run rs s)"
    by (rule run_seats_respected) (use assms in \<open>simp add: seats_respected_def\<close>)
  then show ?thesis
    by (simp add: seats_respected_def enroll_full)
qed

theorem capacity_kept_by_enrollment_witness:
  "within_capacity example_db \<and> whole_capacities example_db
   \<and> within_capacity
       (run [(no_fault, 5, Enroll id_ravi id_math201),
             (user_write_fails, 6, Enroll id_jane id_math201),
             (no_fault, 7, Unenroll id_john id_cs101), (no_fault, 8, DeleteUser id_admin id_jane),
             (no_fault, 9, DeleteCourse id_math201)] example_db)
   \<and> enroll no_fault 5 id_ravi id_cs101 example_db = (Inl CapacityExceeded, example_db)"
proof -
  have h: "within_capacity example_db"
    by (simp add: within_capacity_def example_defs enrolledCount_def)
  have w: "whole_capacities example_db"
    by (simp add: whole_capacities_def whole_def example_defs)
  have c: "map_of (courses example_db) id_cs101 = Some cs101"
    by (simp add: example_db_def)
  have f: "course.isActive cs101 \<and> id_ravi \<notin> set (enrolledStudents cs101)
      \<and> capacity cs101 \<le> enrolledCount cs101 \<and> \<not> no_fault Course_findById"
    by (simp add: cs101_def enrolledCount_def no_fault_def)
  show ?thesis
    using h w c f capacity_kept_by_enrollment [OF h w, where cid = "id_cs101"
        and uid = "id_ravi" and c = cs101 and flt = no_fault and now = 5
        and rs = "[(no_fault, 5, Enroll id_ravi id_math201),
             (user_write_fails, 6, Enroll id_jane id_math201),
             (no_fault, 7, Unenroll id_john id_cs101), (no_fault, 8, DeleteUser id_admin id_jane),
             (no_fault, 9, DeleteCourse id_math201)]"]
    by blast
qed

text \<open>
  The claim as stated fails. The roster of CS101 has reached its capacity, and the
  enroll request of John, who is in that roster, is answered with \<open>Conflict\<close>: the check
  for a member comes before the check of the capacity. An update of the course by an
  admin that sets the capacity to 1 passes the validator and leaves a roster of two
  in a course of capacity one. And an update that sets the capacity to 2.5 passes the
  validator too and leaves the roster of two within the capacity; the enroll request of
  Ravi then passes the test \<^verbatim>\<open>2 >= 2.5\<close> and leaves a roster of three.
\<close>

theorem capacity_counterexample:
  "map_of (courses example_db) id_cs101 = Some cs101
   \<and> enrolledCount cs101 = capacity cs101
   \<and> enroll no_fault 5 id_john id_cs101 example_db = (Inl Conflict, example_db)
   \<and> within_capacity example_db
   \<and> \<not> within_capacity
         (snd (update_course no_fault ''admin'' id_admin id_cs101
                 \<lparr>p_capacity = Some 1, p_enrolledStudents = None, p_courseActive = None\<rparr>
                 example_db))
   \<and> within_capacity half_seat_db
   \<and> roster (snd (enroll no_fault 5 id_ravi id_cs101 half_seat_db)) id_cs101
       = Some [id_john, id_jane, id_ravi]
   \<and> \<not> within_capacity (snd (enroll no_fault 5 id_ravi id_cs101 half_seat_db))"
  by (simp add: example_defs half_seat_db_def enroll_def no_fault_def within_capacity_def
        enrolledCount_def update_course_def course_validators_def apply_course_patch_def
        save_course_def Let_def roster_def pre_save_def findByIdAndUpdate_user_def
        save_user_def)

subsection \<open>C2: bidirectional consistency\<close>

text \<open>
  C2, as the code has it. With unique ids, an enroll or unenroll request of the routers
  keeps the store consistent (a student is in a course's roster exactly when the course
  is in the student's list) whenever the write to the user collection does not throw;
  on the demo server, whose handlers make both writes in memory, every enroll and
  unenroll request keeps a well-formed, consistent state well formed and consistent.
\<close>

theorem consistency_kept_when_both_writes_succeed:
  "(unique_ids s \<and> consistent s \<and> \<not> flt User_findByIdAndUpdate
      \<longrightarrow> unique_ids (snd (enroll flt now uid cid s))
          \<and> consistent (snd (enroll flt now uid cid s))
          \<and> unique_ids (snd (unenroll flt now uid cid s))
          \<and> consistent (snd (unenroll flt now uid cid s)))
   \<and> (demo_wellformed d \<and> demo_consistent d
      \<longrightarrow> demo_wellformed (snd (demo_enroll header dcid d))
          \<and> demo_consistent (snd (demo_enroll header dcid d))
          \<and> demo_wellformed (snd (demo_unenroll header dcid d))
          \<and> demo_consistent (snd (demo_unenroll header dcid d)))"
  by (simp add: enroll_unique_ids enroll_consistent unenroll_unique_ids unenroll_consistent
        demo_enroll_invariant demo_unenroll_invariant)

theorem consistency_kept_witness:
  "unique_ids example_db \<and> consistent example_db \<and> \<not> no_fault User_findByIdAndUpdate
   \<and> consistent (snd (enroll no_fault 5 id_ravi id_math201 example_db))
   \<and> consistent (snd (unenroll no_fault 6 id_john id_cs101 example_db))
   \<and> demo_wellformed initial_demo \<and> demo_consistent initial_demo
   \<and> demo_consistent (snd (demo_enroll student_header ''3'' initial_demo))
   \<and> demo_consistent (snd (demo_unenroll student_header ''2'' initial_demo))"
  using consistency_kept_when_both_writes_succeed
          [of example_db no_fault 5 "id_ravi" "id_math201" initial_demo
              student_header "''3''"]
        consistency_kept_when_both_writes_succeed
          [of example_db no_fault 6 "id_john" "id_cs101" initial_demo
              student_header "''2''"]
        example_db_consistent initial_demo_consistent
  by (simp add: no_fault_def)

text \<open>
  The claim as stated fails when the store throws between the two writes: the course is
  saved without John, the update of the user is not made, and CS101 stays in John's
  list.
\<close>

theorem consistency_counterexample:
  "unique_ids example_db \<and> consistent example_db
   \<and> fst (unenroll user_write_fails 6 id_john id_cs101 example_db) = Inl ServerFault
   \<and> \<not> consistent (snd (unenroll user_write_fails 6 id_john id_cs101 example_db))"
  by (simp add: unique_ids_def consistent_def example_defs unenroll_def user_write_fails_def
        Let_def save_course_def pre_save_def)

subsection \<open>C3: the two writes of an enrollment\<close>

text \<open>
  C3, as the code has it. When the write to the user collection does not throw, an
  enroll or unenroll request either is answered with a failure and changes nothing, or
  succeeds and changes both the roster and the student's list. When that write throws
  after the course was saved, the answer is \<open>ServerFault\<close>, the roster keeps the change
  and the user collection is as before: nothing rolls the first write back.
\<close>

theorem two_sided_update_without_rollback:
  "(\<not> flt User_findByIdAndUpdate \<longrightarrow>
      (case fst (enroll flt now uid cid s) of
         Inl err \<Rightarrow> snd (enroll flt now uid cid s) = s
       | Inr c' \<Rightarrow>
           roster (snd (enroll flt now uid cid s)) cid
             = map_option (\<lambda>r. r @ [uid]) (roster s cid)
           \<and> enrolled_list (snd (enroll flt now uid cid s)) uid
             = map_option (addToSet cid) (enrolled_list s uid))
    \<and> (case fst (unenroll flt now uid cid s) of
         Inl err \<Rightarrow> snd (unenroll flt now uid cid s) = s
       | Inr ok \<Rightarrow>
           roster (snd (unenroll flt now uid cid s)) cid
             = map_option (pull uid) (roster s cid)
           \<and> enrolled_list (snd (unenroll flt now uid cid s)) uid
             = map_option (pull cid) (enrolled_list s uid)))
   \<and> (flt User_findByIdAndUpdate \<and> \<not> flt Course_findById \<and> \<not> flt Course_save
        \<and> map_of (courses s) cid = Some c \<longrightarrow>
      (course.isActive c \<and> uid \<notin> set (enrolledStudents c) \<and> enrolledCount c < capacity c \<longrightarrow>
         fst (enroll flt now uid cid s) = Inl ServerFault
         \<and> roster (snd (enroll flt now uid cid s)) cid = Some (enrolledStudents c @ [uid])
         \<and> users (snd (enroll flt now uid cid s)) = users s)
    \<and> (uid \<in> set (enrolledStudents c) \<longrightarrow>
         fst (unenroll flt now uid cid s) = Inl ServerFault
         \<and> roster (snd (unenroll flt now uid cid s)) cid = Some (pull uid (enrolledStudents c))
         \<and> users (snd (unenroll flt now uid cid s)) = users s))"
  using enroll_both_or_neither [of flt now uid cid s]
    unenroll_both_or_neither [of flt now uid cid s]
    enroll_one_side [of flt s cid c uid now] unenroll_one_side [of flt s cid c uid now]
  by blast

theorem two_sided_update_witness:
  "\<not> no_fault User_findByIdAndUpdate
   \<and> fst (enroll no_fault 5 id_ravi id_math201 example_db)
       = Inr (math201\<lparr>enrolledStudents := [id_john, id_ravi], updatedAt := 5\<rparr>)
   \<and> roster (snd (enroll no_fault 5 id_ravi id_math201 example_db)) id_math201 = Some [id_john, id_ravi]
   \<and> enrolled_list (snd (enroll no_fault 5 id_ravi id_math201 example_db)) id_ravi = Some [id_math201]
   \<and> user_write_fails User_findByIdAndUpdate
   \<and> fst (unenroll user_write_fails 6 id_john id_math201 example_db) = Inl ServerFault
   \<and> roster (snd (unenroll user_write_fails 6 id_john id_math201 example_db)) id_math201 = Some []
   \<and> users (snd (unenroll user_write_fails 6 id_john id_math201 example_db)) = users example_db"
proof -
  have e: "fst (enroll no_fault 5 id_ravi id_math201 example_db)
             = Inr (math201\<lparr>enrolledStudents := [id_john, id_ravi], updatedAt := 5\<rparr>)"
    by (simp add: enroll_def no_fault_def example_defs Let_def pre_save_def)
  have r: "roster example_db id_math201 = Some [id_john]"
    and l: "enrolled_list example_db id_ravi = Some []"
    and c: "map_of (courses example_db) id_math201 = Some math201"
    and m: "id_john \<in> set (enrolledStudents math201)"
    by (simp_all add: roster_def enrolled_list_def example_defs)
  show ?thesis
    using two_sided_update_without_rollback [of no_fault 5 "id_ravi" "id_math201" example_db math201]
      two_sided_update_without_rollback [of user_write_fails 6 "id_john" "id_math201" example_db math201]
      e r l c m
    by (simp add: no_fault_def user_write_fails_def addToSet_def pull_def math201_def)
qed

text \<open>
  The claim as stated fails: the enroll request of Ravi for MATH201 is answered with
  \<open>ServerFault\<close>, the roster of MATH201 has gained Ravi, and Ravi's list is still empty.
\<close>

theorem atomicity_counterexample:
  "fst (enroll user_write_fails 5 id_ravi id_math201 example_db) = Inl ServerFault
   \<and> roster example_db id_math201 = Some [id_john]
   \<and> roster (snd (enroll user_write_fails 5 id_ravi id_math201 example_db)) id_math201 = Some [id_john, id_ravi]
   \<and> enrolled_list example_db id_ravi = Some []
   \<and> enrolled_list (snd (enroll user_write_fails 5 id_ravi id_math201 example_db)) id_ravi = Some []"
  by (simp add: enroll_def user_write_fails_def example_defs Let_def pre_save_def
        roster_def enrolled_list_def save_course_def)

subsection \<open>C4: the outcomes of an enroll request\<close>




subsection \<open>C5: the outcomes of an unenroll request\<close>




subsection \<open>C6: an admin's own account\<close>

text \<open>
  C6. When the caller's own account exists and the lookup answers, the request to
  toggle the active status of that account, and the request to set its role to any of
  the three valid roles, are refused with \<open>Forbidden\<close> (status 400 in the source) and
  the store is as before, so the account keeps its status and its role. The handlers
  run behind \<^verbatim>\<open>authorize('admin')\<close> and do not look at the caller's role themselves.
\<close>

theorem own_account_guard:
  "map_of (users s) caller = Some u \<and> \<not> flt User_findById \<longrightarrow>
     toggle_status flt caller caller s = (Inl Forbidden, s)
     \<and> (r \<in> set valid_roles \<longrightarrow> update_role flt caller caller (Some r) s = (Inl Forbidden, s))"
  by (auto simp: toggle_status_def update_role_def valid_roles_def)

theorem own_account_guard_witness:
  "map_of (users example_db) id_admin = Some admin \<and> user.isActive admin
   \<and> \<not> no_fault User_findById \<and> ''student'' \<in> set valid_roles
   \<and> toggle_status no_fault id_admin id_admin example_db = (Inl Forbidden, example_db)
   \<and> update_role no_fault id_admin id_admin (Some ''student'') example_db = (Inl Forbidden, example_db)"
proof -
  have h: "map_of (users example_db) id_admin = Some admin" "user.isActive admin"
    "\<not> no_fault User_findById" "''student'' \<in> set valid_roles"
    by (simp_all add: example_db_def admin_def no_fault_def valid_roles_def)
  show ?thesis
    using h own_account_guard [where s = example_db and caller = "id_admin" and u = admin
        and flt = no_fault and r = "''student''"]
    by simp
qed


subsection \<open>C7: deleting a user\<close>

text \<open>
  C7. When an admin deletes another, existing user and the store answers, the request
  succeeds, no roster of any course contains the user's id afterwards, the courses are
  the same ones, and the user document is gone.
\<close>

theorem delete_user_clears_rosters:
  "map_of (users s) target = Some u \<and> target \<noteq> caller
     \<and> \<not> flt User_findById \<and> \<not> flt Course_updateMany \<and> \<not> flt User_deleteOne \<longrightarrow>
   fst (delete_user flt caller target s) = Inr ()
   \<and> (\<forall>(k, c) \<in> set (courses (snd (delete_user flt caller target s))).
         target \<notin> set (enrolledStudents c))
   \<and> map fst (courses (snd (delete_user flt caller target s))) = map fst (courses s)
   \<and> map_of (users (snd (delete_user flt caller target s))) target = None"
  by (auto simp: delete_user_def Let_def delete_conv' pull_from_rosters_def comp_def
        case_prod_unfold dest: in_pull_from_rosters [unfolded pull_from_rosters_def])

theorem delete_user_clears_rosters_witness:
  "map_of (users example_db) id_john = Some john
   \<and> map (\<lambda>(k, c). (k, enrolledStudents c)) (courses example_db)
       = [(id_cs101, [id_john, id_jane]), (id_math201, [id_john]), (id_eng102, [])]
   \<and> fst (delete_user no_fault id_admin id_john example_db) = Inr ()
   \<and> map (\<lambda>(k, c). (k, enrolledStudents c))
         (courses (snd (delete_user no_fault id_admin id_john example_db)))
       = [(id_cs101, [id_jane]), (id_math201, []), (id_eng102, [])]
   \<and> map_of (users (snd (delete_user no_fault id_admin id_john example_db))) id_john = None"
proof -
  have h: "map_of (users example_db) id_john = Some john" "id_john \<noteq> id_admin"
    "\<not> no_fault User_findById" "\<not> no_fault Course_updateMany" "\<not> no_fault User_deleteOne"
    by (simp_all add: example_db_def no_fault_def)
  have e: "map (\<lambda>(k, c). (k, enrolledStudents c)) (courses example_db)
       = [(id_cs101, [id_john, id_jane]), (id_math201, [id_john]), (id_eng102, [])]"
    "map (\<lambda>(k, c). (k, enrolledStudents c))
         (courses (snd (delete_user no_fault id_admin id_john example_db)))
       = [(id_cs101, [id_jane]), (id_math201, []), (id_eng102, [])]"
    by (simp_all add: example_defs delete_user_def no_fault_def Let_def pull_from_rosters_def
          pull_def)
  show ?thesis
    using h e delete_user_clears_rosters [where s = example_db and target = "id_john"
        and caller = "id_admin" and u = john and flt = no_fault]
    by simp
qed


subsection \<open>C8: the profile update\<close>

text \<open>
  C8 fails on the router's profile update. The handler deletes the top-level keys
  \<^verbatim>\<open>email\<close>, \<^verbatim>\<open>role\<close>, \<^verbatim>\<open>password\<close> and \<^verbatim>\<open>studentId\<close> of the body, but the body is the update
  document, and its \<^verbatim>\<open>$set\<close> operator is applied as it is: for the body
  \<^verbatim>\<open>{"$set": {"role": "admin"}}\<close> the request of the student John succeeds and the stored
  role is \<open>admin\<close> afterwards. (For a body without operators the three fields are kept,
  and on the demo server they are kept for every body: the two lemmas
  \<open>update_profile_top_level_keeps_identity\<close> and \<open>demo_update_profile_keeps_identity\<close>.)
\<close>

theorem profile_update_set_operator_changes_role:
  "map_option role (map_of (users example_db) id_john) = Some ''student''
   \<and> fst (update_profile no_fault id_john set_role_body example_db)
       = Inr (Some (john\<lparr>role := ''admin'', password := None\<rparr>))
   \<and> map_option role
        (map_of (users (snd (update_profile no_fault id_john set_role_body example_db))) id_john)
       = Some ''admin''"
  by (simp add: example_defs update_profile_def set_role_body_def Let_def no_fault_def
        sanitize_def validation_ok_def delete_identity_keys_def user_validators_def
        valid_roles_def no_patch_def no_update_def findByIdAndUpdate_user_def save_user_def
        apply_update_def apply_patch_def select_minus_password_def)

theorem profile_update_set_operator_witness:
  "map_option role
     (map_of (users (snd (update_profile no_fault id_john set_role_body example_db))) id_john)
   \<noteq> map_option role (map_of (users example_db) id_john)"
proof -
  have "map_option role (map_of (users example_db) id_john) = Some ''student''"
    and "map_option role
           (map_of (users (snd (update_profile no_fault id_john set_role_body example_db))) id_john)
         = Some ''admin''"
    using profile_update_set_operator_changes_role by blast+
  then show ?thesis by (simp only: option.inject) simp
qed


subsection \<open>C9: the role update\<close>

text \<open>
  C9. When an admin sets the role of another, existing user to a valid role and the
  store answers, the stored user is the old one with the new role: \<^verbatim>\<open>studentId\<close>,
  \<^verbatim>\<open>department\<close> and \<^verbatim>\<open>semester\<close> are as before, whatever the old and the new role are,
  since the test that guards their reset reads the role after the assignment.
\<close>

theorem update_role_changes_only_role:
  "map_of (users s) target = Some u \<and> target \<noteq> caller \<and> r \<in> set valid_roles
     \<and> \<not> flt User_findById \<and> \<not> flt User_save \<longrightarrow>
   update_role flt caller target (Some r) s
     = (Inr (u\<lparr>role := r\<rparr>), save_user target (u\<lparr>role := r\<rparr>) s)
   \<and> map_of (users (snd (update_role flt caller target (Some r) s))) target
       = Some (u\<lparr>role := r\<rparr>)
   \<and> studentId (u\<lparr>role := r\<rparr>) = studentId u
   \<and> department (u\<lparr>role := r\<rparr>) = department u
   \<and> semester (u\<lparr>role := r\<rparr>) = semester u"
  by (auto simp: update_role_def Let_def valid_roles_def save_user_def update_conv')

theorem update_role_changes_only_role_witness:
  "map_of (users example_db) id_john = Some john \<and> role john = ''student''
   \<and> update_role no_fault id_admin id_john (Some ''instructor'') example_db
       = (Inr (john\<lparr>role := ''instructor''\<rparr>),
          save_user id_john (john\<lparr>role := ''instructor''\<rparr>) example_db)
   \<and> map_option (\<lambda>u. (role u, studentId u, department u, semester u))
        (map_of (users (snd (update_role no_fault id_admin id_john (Some ''instructor'') example_db)))
           id_john)
       = Some (''instructor'', Some ''S123456'', Some ''Computer Science'', Some 2)"
proof -
  have h: "map_of (users example_db) id_john = Some john" "id_john \<noteq> id_admin"
    "''instructor'' \<in> set valid_roles" "\<not> no_fault User_findById" "\<not> no_fault User_save"
    by (simp_all add: example_db_def no_fault_def valid_roles_def)
  show ?thesis
    using h update_role_changes_only_role [where s = example_db and target = "id_john"
        and caller = "id_admin" and u = john and flt = no_fault and r = "''instructor''"]
    by (simp add: john_def save_user_def update_conv')
qed

subsection \<open>C10: no password in a response\<close>

text \<open>
  C10. Every successful response of login, register, current user, student profile and
  user list on the demo server returns user objects whose \<^verbatim>\<open>password\<close> key is absent;
  the router's student profile returns a user without password, and so does every
  entry of the router's user list, the fallback list included.
\<close>

theorem responses_carry_no_password:
  "(login e pw d = Inr r1 \<longrightarrow> r1 ''password'' = Undefined)
   \<and> (fst (register now body d) = Inr r2 \<longrightarrow> r2 ''password'' = Undefined)
   \<and> (me header d = Inr r3 \<longrightarrow> r3 ''password'' = Undefined)
   \<and> (demo_get_profile header d = Inr r4 \<longrightarrow> r4 ''password'' = Undefined)
   \<and> (demo_get_users header d = Inr rs \<longrightarrow> (\<forall>r \<in> set rs. r ''password'' = Undefined))
   \<and> (get_profile flt caller s = Inr (u, cs) \<longrightarrow> password u = None)
   \<and> (\<forall>(k, v) \<in> set (get_users flt now s). password v = None)"
  by (auto dest: login_response register_response me_response demo_get_profile_response
        demo_get_users_response get_profile_response get_users_response)


theorem responses_carry_no_password_witness:
  "demo_student ''password'' = Str ''password123''
   \<and> login (Some ''student@test.com'') (Some ''password123'') initial_demo
       = Inr (without_password demo_student)
   \<and> without_password demo_student ''password'' = Undefined
   \<and> (case fst (register 9 mia initial_demo) of
         Inl err \<Rightarrow> None
       | Inr r \<Rightarrow> Some (r ''id'', r ''email'', r ''password''))
       = Some (Str ''3'', Str ''mia@test.com'', Undefined)
   \<and> me student_header initial_demo = Inr (without_password demo_student)
   \<and> demo_get_profile student_header initial_demo = Inr (without_password demo_student)
   \<and> demo_get_users admin_header initial_demo
       = Inr [without_password demo_student, without_password demo_admin]
   \<and> without_password demo_admin ''password'' = Undefined
   \<and> map_option password (map_of (users example_db) id_john) = Some (Some ''password123'')
   \<and> get_profile no_fault id_john example_db
       = Inr (select_minus_password john, populate (courses example_db) [id_cs101, id_math201])
   \<and> password (select_minus_password john) = None
   \<and> map (\<lambda>(k, v). (k, password v)) (get_users no_fault 9 example_db)
       = [(id_ravi, None), (id_jane, None), (id_john, None), (id_admin, None)]"
proof -
  have st: "demo_student ''password'' = Str ''password123''"
    "demo_student ''role'' = Str ''student''" "demo_admin ''role'' = Str ''admin''"
    by (simp_all add: demo_student_def demo_admin_def object_of_def)
  have l: "login (Some ''student@test.com'') (Some ''password123'') initial_demo
       = Inr (without_password demo_student)"
    by (simp add: login_def initial_demo_def st)
  have r: "(case fst (register 9 mia initial_demo) of
         Inl err \<Rightarrow> None
       | Inr r \<Rightarrow> Some (r ''id'', r ''email'', r ''password''))
       = Some (Str ''3'', Str ''mia@test.com'', Undefined)"
    by (simp add: register_def mia_def falsy_string_def initial_demo_def Let_def
          inherited_keys_def
          str_or_undefined_def object_of_def without_password_def toString_3)
  have m: "me student_header initial_demo = Inr (without_password demo_student)"
    by (simp add: me_def student_authenticates)
  have p: "demo_get_profile student_header initial_demo = Inr (without_password demo_student)"
    by (simp add: demo_get_profile_def student_authenticates st)
  have a: "validateSimpleToken ''demo-token-2-1700000000000'' initial_demo
             = Some (''admin@test.com'', demo_admin)"
    by (simp add: validateSimpleToken_def startsWith_def initial_demo_def Let_def)
  have g: "demo_get_users admin_header initial_demo
       = Inr [without_password demo_student, without_password demo_admin]"
    by (simp add: demo_get_users_def admin_header_def bearer_def element_def no_token_def a st
          Let_def)
      (simp add: initial_demo_def)
  have d: "map_option password (map_of (users example_db) id_john) = Some (Some ''password123'')"
    "get_profile no_fault id_john example_db
       = Inr (select_minus_password john, populate (courses example_db) [id_cs101, id_math201])"
    by (simp_all add: example_db_def john_def get_profile_def no_fault_def)
  have u: "map (\<lambda>(k, v). (k, password v)) (get_users no_fault 9 example_db)
       = [(id_ravi, None), (id_jane, None), (id_john, None), (id_admin, None)]"
    by (simp add: get_users_def no_fault_def example_defs select_minus_password_def)
  show ?thesis
    using st l r m p g d u
      responses_carry_no_password [where e = "Some ''student@test.com''"
        and pw = "Some ''password123''" and d = initial_demo
        and ?r1.0 = "without_password demo_student" and header = admin_header
        and rs = "[without_password demo_student, without_password demo_admin]"
        and flt = no_fault and caller = "id_john" and s = example_db
        and u = "select_minus_password john"
        and cs = "populate (courses example_db) [id_cs101, id_math201]"]
    by simp
qed

end
